theory Spec2Isabelle
  imports Main
begin

section \<open>The JavaScript runtime the tracker relies on\<close>

text \<open>
  The tracker exists in two variants: \<^verbatim>\<open>app.js\<close> (GitHub storage only, trailing
  reporting window) and the larger unnamed file (local or GitHub storage, window anchored
  at the first entry, table and overview tabs).  Functions that are textually identical in
  both files are embedded once; where the two differ, the embedding of the \<^verbatim>\<open>app.js\<close>
  version carries the suffix \<open>_app\<close>.

  A JavaScript \<^verbatim>\<open>Date\<close> is a number of milliseconds since the epoch, embedded as an
  \<^typ>\<open>int\<close>.  An entry's \<^verbatim>\<open>timestamp\<close> is the ISO string written by
  \<^verbatim>\<open>toISOString()\<close>; every use in the source goes through \<^verbatim>\<open>new Date(e.timestamp)\<close>,
  so the embedding stores the instant the string denotes.  Local time is UTC plus a
  fixed offset \<open>tz\<close> in milliseconds (a zone without daylight-saving changes); the offset
  is a parameter of every function that reads or writes local calendar fields.  The bounds
  of the range of valid dates (about 270000 years around the epoch) are left out.
\<close>

definition MS_PER_DAY :: int where
  "MS_PER_DAY = 1000 * 60 * 60 * 24"

text \<open>The number of the local calendar day an instant falls on (day 0 is 1970-01-01).\<close>

definition local_day :: "int \<Rightarrow> int \<Rightarrow> int" where
  "local_day tz t = (t + tz) div MS_PER_DAY"

text \<open>
  \<^verbatim>\<open>d.setHours(0, 0, 0, 0)\<close>: local midnight of the day of \<open>t\<close>, in a zone whose
  offset is \<open>tz\<close> at every instant.
\<close>

definition setHours_0 :: "int \<Rightarrow> int \<Rightarrow> int" where
  "setHours_0 tz t = local_day tz t * MS_PER_DAY - tz"

text \<open>\<^verbatim>\<open>d.setHours(23, 59, 59, 999)\<close>: the last millisecond of the local day of \<open>t\<close>.\<close>

definition setHours_end :: "int \<Rightarrow> int \<Rightarrow> int" where
  "setHours_end tz t = local_day tz t * MS_PER_DAY - tz + (MS_PER_DAY - 1)"

text \<open>
  \<^verbatim>\<open>d.setDate(d.getDate() + n)\<close>: the same local wall-clock time \<open>n\<close> days later.
  With a fixed offset that is \<open>n\<close> times 24 hours later; across a daylight-saving change
  it would not be, which is why every result below that is stated for all inputs is a
  result about fixed-offset zones, and every evaluation is at such a zone.
\<close>

definition addDays :: "int \<Rightarrow> int \<Rightarrow> int" where
  "addDays t n = t + n * MS_PER_DAY"

text \<open>\<^verbatim>\<open>d.getDay()\<close>: local day of the week, 0 for Sunday; 1970-01-01 was a Thursday.\<close>

definition getDay :: "int \<Rightarrow> int \<Rightarrow> int" where
  "getDay tz t = (local_day tz t + 4) mod 7"

text \<open>
  \<^verbatim>\<open>d.toISOString().split('T')[0]\<close>: the UTC calendar date of \<open>t\<close>.  The source only
  compares these strings for equality, and two such strings are equal exactly when the
  UTC day numbers are, so the day number stands for the string.
\<close>

definition isoDate :: "int \<Rightarrow> int" where
  "isoDate t = t div MS_PER_DAY"

text \<open>
  The civil date of a local day number in the proleptic Gregorian calendar, as
  \<^verbatim>\<open>getFullYear\<close>, \<^verbatim>\<open>getMonth\<close> and \<^verbatim>\<open>getDate\<close> compute it.  The calendar
  repeats every 146097 days (400 years); inside such an era days and years are counted
  from 1 March, so that the leap day is the last day of the year.
\<close>

definition era :: "int \<Rightarrow> int" where
  "era z = (z + 719468) div 146097"

definition day_of_era :: "int \<Rightarrow> int" where
  "day_of_era z = (z + 719468) mod 146097"

definition year_of_era :: "int \<Rightarrow> int" where
  "year_of_era doe = (doe - doe div 1460 + doe div 36524 - doe div 146096) div 365"

definition day_of_march_year :: "int \<Rightarrow> int" where
  "day_of_march_year z =
     day_of_era z - (365 * year_of_era (day_of_era z) + year_of_era (day_of_era z) div 4
                     - year_of_era (day_of_era z) div 100)"

definition month_from_march :: "int \<Rightarrow> int" where
  "month_from_march z = (5 * day_of_march_year z + 2) div 153"

text \<open>Month 1..12, day of the month 1..31, and year.\<close>

definition civil_month :: "int \<Rightarrow> int" where
  "civil_month z = (if month_from_march z < 10 then month_from_march z + 3
                    else month_from_march z - 9)"

definition civil_day :: "int \<Rightarrow> int" where
  "civil_day z = day_of_march_year z - (153 * month_from_march z + 2) div 5 + 1"

definition civil_year :: "int \<Rightarrow> int" where
  "civil_year z = year_of_era (day_of_era z) + era z * 400 + (if civil_month z \<le> 2 then 1 else 0)"

definition getFullYear :: "int \<Rightarrow> int \<Rightarrow> int" where
  "getFullYear tz t = civil_year (local_day tz t)"

definition getMonth :: "int \<Rightarrow> int \<Rightarrow> nat" where
  "getMonth tz t = nat (civil_month (local_day tz t) - 1)"

definition getDate :: "int \<Rightarrow> int \<Rightarrow> int" where
  "getDate tz t = civil_day (local_day tz t)"

text \<open>\<^verbatim>\<open>n.toString()\<close> for an integer: decimal digits, with a minus sign when negative.\<close>

definition digit_char :: "nat \<Rightarrow> char" where
  "digit_char d = char_of (48 + d)"

fun digits_rev :: "nat \<Rightarrow> string" where
  "digits_rev n = (if n < 10 then [digit_char n]
                   else digit_char (n mod 10) # digits_rev (n div 10))"

declare digits_rev.simps [simp del]

definition toString :: "int \<Rightarrow> string" where
  "toString i = (if i < 0 then CHR ''-'' # rev (digits_rev (nat (- i)))
                 else rev (digits_rev (nat i)))"

section \<open>Data model\<close>

text \<open>
  An entry is \<^verbatim>\<open>{id, timestamp, category}\<close>.  The category is whatever string
  \<^verbatim>\<open>addEntry\<close> was called with; the four buttons pass \<^verbatim>\<open>'beer'\<close>, \<^verbatim>\<open>'wine'\<close>,
  \<^verbatim>\<open>'liquor'\<close> and \<^verbatim>\<open>'smoking'\<close>.
\<close>

record entry =
  entry_id :: string
  timestamp :: int
  category :: string

section \<open>Summary statistics\<close>

text \<open>\<^verbatim>\<open>entries.filter(e => e.category === c).length\<close>\<close>

definition count_category :: "string \<Rightarrow> entry list \<Rightarrow> nat" where
  "count_category c es = length (filter (\<lambda>e. category e = c) es)"

text \<open>
  The source keeps one value per category in object literals with the keys
  \<^verbatim>\<open>beer\<close>, \<^verbatim>\<open>wine\<close>, \<^verbatim>\<open>liquor\<close>, \<^verbatim>\<open>smoking\<close>: a count in the statistics,
  an array of counts in the chart data.
\<close>

record 'a per_category =
  beer :: 'a
  wine :: 'a
  liquor :: 'a
  smoking :: 'a

definition category_stats :: "entry list \<Rightarrow> nat per_category" where
  "category_stats es =
     \<lparr> beer = count_category ''beer'' es,
       wine = count_category ''wine'' es,
       liquor = count_category ''liquor'' es,
       smoking = count_category ''smoking'' es \<rparr>"

text \<open>
  \<^verbatim>\<open>renderSummaryStats\<close> returns the four counts and the total it prints.  The unnamed
  file computes \<^verbatim>\<open>stats.beer + stats.wine + stats.liquor + stats.smoking\<close>.
\<close>

definition renderSummaryStats :: "entry list \<Rightarrow> nat per_category \<times> nat" where
  "renderSummaryStats es =
     (let stats = category_stats es;
          total = beer stats + wine stats + liquor stats + smoking stats
      in (stats, total))"

text \<open>
  \<^verbatim>\<open>app.js\<close> computes
  \<^verbatim>\<open>stats.beer + stats.wine + stats.wine + stats.liquor + stats.smoking\<close>.
\<close>

definition renderSummaryStats_app :: "entry list \<Rightarrow> nat per_category \<times> nat" where
  "renderSummaryStats_app es =
     (let stats = category_stats es;
          total = beer stats + wine stats + wine stats + liquor stats + smoking stats
      in (stats, total))"

section \<open>Reporting window\<close>

text \<open>
  \<^verbatim>\<open>[...entries].sort((a, b) => new Date(a.timestamp) - new Date(b.timestamp))[0]\<close>:
  the first element of the entries sorted by ascending timestamp (the sort is stable).
  It is only read when the list is not empty.
\<close>

definition first_entry :: "entry list \<Rightarrow> entry" where
  "first_entry es = hd (sort_key timestamp es)"

text \<open>
  The window computed at the top of \<^verbatim>\<open>updateChart\<close> in the unnamed file (the same
  lines open \<^verbatim>\<open>renderTableView\<close> and \<^verbatim>\<open>renderOverview\<close>).  \<open>now\<close> is the value of
  \<^verbatim>\<open>new Date()\<close>, read twice in a row and taken to be the same instant both times;
  \<open>period\<close> is the selected option, one of 7, 30, 90 and 365.  The result is
  \<^verbatim>\<open>(startDate, endDate)\<close>.
\<close>

definition updateChart_window :: "int \<Rightarrow> entry list \<Rightarrow> int \<Rightarrow> int \<Rightarrow> int \<times> int" where
  "updateChart_window tz es period now =
     (let endDate = setHours_end tz now;
          startDate = now
      in if length es > 0 then
           let firstEntryDate = setHours_0 tz (timestamp (first_entry es));
               periodEndDate = addDays firstEntryDate (period - 1)
           in (firstEntryDate, if periodEndDate < endDate then periodEndDate else endDate)
         else (addDays startDate (- period), endDate))"

text \<open>
  \<^verbatim>\<open>app.js\<close>: \<^verbatim>\<open>endDate = new Date()\<close> and
  \<^verbatim>\<open>startDate.setDate(startDate.getDate() - period)\<close>, whatever the entries are.
\<close>

definition updateChart_window_app :: "int \<Rightarrow> entry list \<Rightarrow> int \<Rightarrow> int \<Rightarrow> int \<times> int" where
  "updateChart_window_app tz es period now =
     (let endDate = now;
          startDate = addDays now (- period)
      in (startDate, endDate))"

text \<open>\<^verbatim>\<open>entries.filter(e => entryDate >= startDate && entryDate <= endDate)\<close>\<close>

definition filter_range :: "int \<Rightarrow> int \<Rightarrow> entry list \<Rightarrow> entry list" where
  "filter_range startDate endDate es =
     filter (\<lambda>e. timestamp e \<ge> startDate \<and> timestamp e \<le> endDate) es"

section \<open>Bucketing\<close>

definition months :: "string list" where
  "months = [''Jan'', ''Feb'', ''Mar'', ''Apr'', ''May'', ''Jun'',
             ''Jul'', ''Aug'', ''Sep'', ''Oct'', ''Nov'', ''Dec'']"

definition formatChartLabel :: "int \<Rightarrow> int \<Rightarrow> bool \<Rightarrow> string" where
  "formatChartLabel tz date isWeek =
     (if isWeek then months ! getMonth tz date @ '' '' @ toString (getDate tz date)
      else months ! getMonth tz date @ '' '' @ toString (getDate tz date))"

text \<open>The chart data: the labels and one array of counts per category.\<close>

record chart_data = "nat list per_category" +
  labels :: "string list"

definition empty_chart_data :: chart_data where
  "empty_chart_data = \<lparr> beer = [], wine = [], liquor = [], smoking = [], labels = [] \<rparr>"

text \<open>The four \<^verbatim>\<open>push\<close> calls that close each iteration of both aggregation loops.\<close>

definition push_bucket :: "string \<Rightarrow> entry list \<Rightarrow> chart_data \<Rightarrow> chart_data" where
  "push_bucket label bucketEntries data =
     data \<lparr> labels := labels data @ [label],
            beer := beer data @ [count_category ''beer'' bucketEntries],
            wine := wine data @ [count_category ''wine'' bucketEntries],
            liquor := liquor data @ [count_category ''liquor'' bucketEntries],
            smoking := smoking data @ [count_category ''smoking'' bucketEntries] \<rparr>"

text \<open>
  The values \<^verbatim>\<open>current\<close> takes in a loop \<^verbatim>\<open>while (current <= endDate)\<close> that ends
  each round with \<^verbatim>\<open>current.setDate(current.getDate() + step)\<close>.  The loops below do
  not use it; the theorems relate the loops to it.
\<close>

function bucket_starts :: "int \<Rightarrow> int \<Rightarrow> int \<Rightarrow> int list" where
  "bucket_starts step current endDate =
     (if 0 < step \<and> current \<le> endDate then
        current # bucket_starts step (addDays current step) endDate
      else [])"
  by pat_completeness auto
termination
  by (relation "measure (\<lambda>(step, current, endDate). nat (endDate - current + 1))")
     (auto simp: addDays_def MS_PER_DAY_def)

declare bucket_starts.simps [simp del]

text \<open>How many values that is: none when the loop is not entered.\<close>

definition bucket_count :: "int \<Rightarrow> int \<Rightarrow> int \<Rightarrow> nat" where
  "bucket_count step current endDate =
     (if current \<le> endDate then nat ((endDate - current) div (step * MS_PER_DAY)) + 1 else 0)"

text \<open>The \<^verbatim>\<open>while (current <= endDate)\<close> loop of \<^verbatim>\<open>aggregateByDay\<close>.\<close>

function aggregateByDay_loop ::
  "int \<Rightarrow> entry list \<Rightarrow> int \<Rightarrow> int \<Rightarrow> chart_data \<Rightarrow> chart_data" where
  "aggregateByDay_loop tz es endDate current data =
     (if current \<le> endDate then
        aggregateByDay_loop tz es endDate (addDays current 1)
          (push_bucket (formatChartLabel tz current False)
             (filter (\<lambda>e. isoDate (timestamp e) = isoDate current) es) data)
      else data)"
  by pat_completeness auto
termination
  by (relation "measure (\<lambda>(tz, es, endDate, current, data). nat (endDate - current + 1))")
     (auto simp: addDays_def MS_PER_DAY_def)

declare aggregateByDay_loop.simps [simp del]

definition aggregateByDay :: "int \<Rightarrow> entry list \<Rightarrow> int \<Rightarrow> int \<Rightarrow> chart_data" where
  "aggregateByDay tz es startDate endDate =
     aggregateByDay_loop tz es endDate (setHours_0 tz startDate) empty_chart_data"

text \<open>The loop of \<^verbatim>\<open>aggregateByWeek\<close>; \<^verbatim>\<open>weekEnd\<close> is \<^verbatim>\<open>current\<close> plus six days.\<close>

function aggregateByWeek_loop ::
  "int \<Rightarrow> entry list \<Rightarrow> int \<Rightarrow> int \<Rightarrow> chart_data \<Rightarrow> chart_data" where
  "aggregateByWeek_loop tz es endDate current data =
     (if current \<le> endDate then
        aggregateByWeek_loop tz es endDate (addDays current 7)
          (push_bucket (formatChartLabel tz current True)
             (filter (\<lambda>e. timestamp e \<ge> current \<and> timestamp e \<le> addDays current 6) es) data)
      else data)"
  by pat_completeness auto
termination
  by (relation "measure (\<lambda>(tz, es, endDate, current, data). nat (endDate - current + 1))")
     (auto simp: addDays_def MS_PER_DAY_def)

declare aggregateByWeek_loop.simps [simp del]

definition aggregateByWeek :: "int \<Rightarrow> entry list \<Rightarrow> int \<Rightarrow> int \<Rightarrow> chart_data" where
  "aggregateByWeek tz es startDate endDate =
     (let current = setHours_0 tz startDate;
          dayOfWeek = getDay tz current
      in aggregateByWeek_loop tz es endDate (addDays current (- dayOfWeek)) empty_chart_data)"

text \<open>
  \<^verbatim>\<open>updateChart\<close>: the window, the entries inside it, their aggregation (daily up to
  30 days, weekly beyond) and the summary statistics.  The result is what the function
  hands to \<^verbatim>\<open>renderChart\<close> and what \<^verbatim>\<open>renderSummaryStats\<close> prints.
\<close>

definition updateChart ::
  "int \<Rightarrow> entry list \<Rightarrow> int \<Rightarrow> int \<Rightarrow> chart_data \<times> nat per_category \<times> nat" where
  "updateChart tz es period now =
     (let (startDate, endDate) = updateChart_window tz es period now;
          filteredEntries = filter_range startDate endDate es;
          aggregatedData =
            (if period \<le> 30 then aggregateByDay tz filteredEntries startDate endDate
             else aggregateByWeek tz filteredEntries startDate endDate)
      in (aggregatedData, renderSummaryStats filteredEntries))"

definition updateChart_app ::
  "int \<Rightarrow> entry list \<Rightarrow> int \<Rightarrow> int \<Rightarrow> chart_data \<times> nat per_category \<times> nat" where
  "updateChart_app tz es period now =
     (let (startDate, endDate) = updateChart_window_app tz es period now;
          filteredEntries = filter_range startDate endDate es;
          aggregatedData =
            (if period \<le> 30 then aggregateByDay tz filteredEntries startDate endDate
             else aggregateByWeek tz filteredEntries startDate endDate)
      in (aggregatedData, renderSummaryStats_app filteredEntries))"

section \<open>Table view\<close>

text \<open>\<^verbatim>\<open>formatTableDate\<close>: the first cell of a table row, such as "Tue, Jan 2, 2024".\<close>

definition days :: "string list" where
  "days = [''Sun'', ''Mon'', ''Tue'', ''Wed'', ''Thu'', ''Fri'', ''Sat'']"

definition formatTableDate :: "int \<Rightarrow> int \<Rightarrow> string" where
  "formatTableDate tz date =
     days ! nat (getDay tz date) @ '', '' @ months ! getMonth tz date @ '' ''
     @ toString (getDate tz date) @ '', '' @ toString (getFullYear tz date)"

text \<open>A row of \<^verbatim>\<open>dailyData\<close>: the day's local midnight, the four counts and their sum.\<close>

record day_row = "nat per_category" +
  date :: int
  total :: nat

text \<open>The loop of \<^verbatim>\<open>renderTableView\<close>: a row is pushed only when its total is positive.\<close>

function dailyData_loop :: "entry list \<Rightarrow> int \<Rightarrow> int \<Rightarrow> day_row list \<Rightarrow> day_row list" where
  "dailyData_loop es endDate current dailyData =
     (if current \<le> endDate then
        let dayEntries = filter (\<lambda>e. isoDate (timestamp e) = isoDate current) es;
            b = count_category ''beer'' dayEntries;
            w = count_category ''wine'' dayEntries;
            l = count_category ''liquor'' dayEntries;
            s = count_category ''smoking'' dayEntries;
            t = b + w + l + s
        in dailyData_loop es endDate (addDays current 1)
             (if t > 0 then
                dailyData @ [\<lparr> beer = b, wine = w, liquor = l, smoking = s,
                                date = current, total = t \<rparr>]
              else dailyData)
      else dailyData)"
  by pat_completeness auto
termination
  by (relation "measure (\<lambda>(es, endDate, current, dailyData). nat (endDate - current + 1))")
     (auto simp: addDays_def MS_PER_DAY_def)

declare dailyData_loop.simps [simp del]

text \<open>
  The row the loop computes while \<^verbatim>\<open>current\<close> is \<open>b\<close>, whether it is pushed or not.
  The loop above does not use it; the lemmas relate the loop to it.
\<close>

definition day_row_of :: "entry list \<Rightarrow> int \<Rightarrow> day_row" where
  "day_row_of es b =
     \<lparr> beer = count_category ''beer'' (filter (\<lambda>e. isoDate (timestamp e) = isoDate b) es),
       wine = count_category ''wine'' (filter (\<lambda>e. isoDate (timestamp e) = isoDate b) es),
       liquor = count_category ''liquor'' (filter (\<lambda>e. isoDate (timestamp e) = isoDate b) es),
       smoking = count_category ''smoking'' (filter (\<lambda>e. isoDate (timestamp e) = isoDate b) es),
       date = b,
       total = count_category ''beer'' (filter (\<lambda>e. isoDate (timestamp e) = isoDate b) es)
             + count_category ''wine'' (filter (\<lambda>e. isoDate (timestamp e) = isoDate b) es)
             + count_category ''liquor'' (filter (\<lambda>e. isoDate (timestamp e) = isoDate b) es)
             + count_category ''smoking'' (filter (\<lambda>e. isoDate (timestamp e) = isoDate b) es) \<rparr>"

text \<open>
  The table body: the single "No data for this period" row when \<^verbatim>\<open>dailyData\<close> is
  empty, otherwise one table row per element of \<^verbatim>\<open>dailyData.reverse()\<close>, in that order.
\<close>

datatype table_body = NoData | Rows "day_row list"

definition renderTableView :: "int \<Rightarrow> entry list \<Rightarrow> int \<Rightarrow> int \<Rightarrow> table_body" where
  "renderTableView tz es period now =
     (let (startDate, endDate) = updateChart_window tz es period now;
          filteredEntries = filter_range startDate endDate es;
          dailyData = dailyData_loop filteredEntries endDate (setHours_0 tz startDate) []
      in if length dailyData = 0 then NoData else Rows (rev dailyData))"

section \<open>Store and persistence\<close>

text \<open>
  \<^verbatim>\<open>config.mode\<close> is \<^verbatim>\<open>'local'\<close> or \<^verbatim>\<open>'github'\<close>.  \<^verbatim>\<open>app.js\<close> has no mode and
  always talks to GitHub; its \<^verbatim>\<open>saveData\<close>, \<^verbatim>\<open>addEntry\<close> and \<^verbatim>\<open>deleteEntry\<close> are
  those of the unnamed file with the local branch removed.
\<close>

datatype mode = Local | Github

record config =
  token :: string
  owner :: string
  repo :: string
  mode :: mode

text \<open>\<^verbatim>\<open>currentData\<close>: the entries and the SHA of the remote file (\<^verbatim>\<open>null\<close> is \<open>None\<close>).\<close>

record data =
  entries :: "entry list"
  sha :: "string option"

datatype status_type = Info | Success | Error

text \<open>
  The module state: \<^verbatim>\<open>config\<close>, \<^verbatim>\<open>currentData\<close>, the message last passed to
  \<^verbatim>\<open>showStatus\<close> with its type, and the value stored in \<^verbatim>\<open>localStorage\<close> under
  \<^verbatim>\<open>LOCAL_DATA_KEY\<close>.
\<close>

record app_state =
  config :: config
  currentData :: data
  status :: "(string \<times> status_type) option"
  local_storage :: "data option"

text \<open>
  What the world answers during one save: the response of the GitHub contents API to the
  PUT, given the SHA sent in the body and the entries (\<open>Inl\<close> the text of the error that
  \<^verbatim>\<open>githubRequest\<close> throws for a response that is not ok, such as the 409 for a stale
  SHA, or of any other exception raised before \<^verbatim>\<open>currentData\<close> is assigned; \<open>Inr\<close> the
  SHA of the new file), whether \<^verbatim>\<open>localStorage.setItem\<close> stores the value or throws (a
  full quota, storage disabled), and whether \<^verbatim>\<open>renderAll()\<close> renders (\<open>None\<close>) or throws
  (\<open>Some\<close> the message of the exception: the chart library did not load, an element of
  the page is missing).  \<^verbatim>\<open>showStatus\<close> is taken not to throw.
\<close>

record save_env =
  github_put :: "string option \<Rightarrow> entry list \<Rightarrow> string + string"
  setItem_ok :: bool
  renderAll_error :: "string option"

text \<open>
  An asynchronous function either runs to its end or is left by an exception nobody
  catches; both carry the module state at that point.
\<close>

datatype outcome = Returned app_state | Thrown app_state

fun state_of :: "outcome \<Rightarrow> app_state" where
  "state_of (Returned s) = s"
| "state_of (Thrown s) = s"

definition isConfigured :: "config \<Rightarrow> bool" where
  "isConfigured c = (token c \<noteq> [] \<and> owner c \<noteq> [] \<and> repo c \<noteq> [])"

definition showStatus :: "string \<Rightarrow> status_type \<Rightarrow> app_state \<Rightarrow> app_state" where
  "showStatus message type s = s \<lparr> status := Some (message, type) \<rparr>"

text \<open>
  \<^verbatim>\<open>saveDataLocal\<close>: write \<^verbatim>\<open>currentData\<close> to local storage, render, report success.
  Rendering only reads the state.  Nothing catches an exception of \<^verbatim>\<open>setItem\<close> or of
  \<^verbatim>\<open>renderAll\<close> here.
\<close>

definition saveDataLocal :: "save_env \<Rightarrow> app_state \<Rightarrow> outcome" where
  "saveDataLocal env s =
     (if setItem_ok env then
        (case renderAll_error env of
           None \<Rightarrow>
             Returned (showStatus ''Saved locally'' Success
                         (s \<lparr> local_storage := Some (currentData s) \<rparr>))
         | Some message \<Rightarrow> Thrown (s \<lparr> local_storage := Some (currentData s) \<rparr>))
      else Thrown s)"

text \<open>\<^verbatim>\<open>if (currentData.sha) body.sha = currentData.sha\<close>: an empty string is not sent.\<close>

definition body_sha :: "data \<Rightarrow> string option" where
  "body_sha d = (case sha d of None \<Rightarrow> None | Some x \<Rightarrow> if x = [] then None else Some x)"

text \<open>
  The remote branch of \<^verbatim>\<open>saveData\<close>, which is all of \<^verbatim>\<open>saveData\<close> in \<^verbatim>\<open>app.js\<close>.
  The request body (commit message, base64 of the JSON text) is represented by what
  decides the answer: the SHA sent and the entries.  The \<^verbatim>\<open>try\<close> block encloses the
  request, the assignment of \<^verbatim>\<open>currentData\<close> and \<^verbatim>\<open>renderAll()\<close>, so an exception
  of the rendering is caught after the assignment and shown as a save error.
\<close>

definition saveData_app :: "save_env \<Rightarrow> entry list \<Rightarrow> app_state \<Rightarrow> outcome" where
  "saveData_app env es s =
     (let s1 = showStatus ''Saving...'' Info s
      in case github_put env (body_sha (currentData s)) es of
           Inr new_sha \<Rightarrow>
             (case renderAll_error env of
                None \<Rightarrow>
                  Returned (showStatus ''Saved successfully'' Success
                              (s1 \<lparr> currentData := \<lparr> entries = es, sha = Some new_sha \<rparr> \<rparr>))
              | Some message \<Rightarrow>
                  Returned (showStatus (''Error saving: '' @ message) Error
                              (s1 \<lparr> currentData := \<lparr> entries = es, sha = Some new_sha \<rparr> \<rparr>)))
         | Inl message \<Rightarrow>
             Returned (showStatus (''Error saving: '' @ message) Error s1))"

definition saveData :: "save_env \<Rightarrow> entry list \<Rightarrow> app_state \<Rightarrow> outcome" where
  "saveData env es s =
     (if mode (config s) = Local then
        saveDataLocal env (s \<lparr> currentData := (currentData s) \<lparr> entries := es \<rparr> \<rparr>)
      else saveData_app env es s)"

text \<open>
  \<^verbatim>\<open>addEntry\<close>; \<open>now\<close> is the clock reading behind both \<^verbatim>\<open>Date.now()\<close> and
  \<^verbatim>\<open>new Date()\<close>.
\<close>

definition new_entry :: "int \<Rightarrow> string \<Rightarrow> entry" where
  "new_entry now cat = \<lparr> entry_id = toString now, timestamp = now, category = cat \<rparr>"

definition addEntry :: "save_env \<Rightarrow> int \<Rightarrow> string \<Rightarrow> app_state \<Rightarrow> outcome" where
  "addEntry env now cat s =
     (if mode (config s) \<noteq> Local \<and> \<not> isConfigured (config s) then
        Returned (showStatus ''Please configure GitHub settings first'' Error s)
      else saveData env (entries (currentData s) @ [new_entry now cat]) s)"

definition addEntry_app :: "save_env \<Rightarrow> int \<Rightarrow> string \<Rightarrow> app_state \<Rightarrow> outcome" where
  "addEntry_app env now cat s =
     (if \<not> isConfigured (config s) then
        Returned (showStatus ''Please configure GitHub settings first'' Error s)
      else saveData_app env (entries (currentData s) @ [new_entry now cat]) s)"

text \<open>\<^verbatim>\<open>deleteEntry\<close>; \<open>confirmed\<close> is the answer to the \<^verbatim>\<open>confirm\<close> dialog.\<close>

definition deleteEntry :: "save_env \<Rightarrow> bool \<Rightarrow> string \<Rightarrow> app_state \<Rightarrow> outcome" where
  "deleteEntry env confirmed ident s =
     (if \<not> confirmed then Returned s
      else saveData env (filter (\<lambda>e. entry_id e \<noteq> ident) (entries (currentData s))) s)"

definition deleteEntry_app :: "save_env \<Rightarrow> bool \<Rightarrow> string \<Rightarrow> app_state \<Rightarrow> outcome" where
  "deleteEntry_app env confirmed ident s =
     (if \<not> confirmed then Returned s
      else saveData_app env (filter (\<lambda>e. entry_id e \<noteq> ident) (entries (currentData s))) s)"

text \<open>
  A sequence of clicks on the category buttons, each with the world's answers, its clock
  reading and its category.  The page stays usable after an uncaught exception, so the
  next click starts from the state the previous one left.
\<close>

fun addEntries :: "(save_env \<times> int \<times> string) list \<Rightarrow> app_state \<Rightarrow> app_state" where
  "addEntries [] s = s"
| "addEntries ((env, now, cat) # clicks) s = addEntries clicks (state_of (addEntry env now cat s))"

fun addEntries_app :: "(save_env \<times> int \<times> string) list \<Rightarrow> app_state \<Rightarrow> app_state" where
  "addEntries_app [] s = s"
| "addEntries_app ((env, now, cat) # clicks) s =
     addEntries_app clicks (state_of (addEntry_app env now cat s))"

text \<open>The state after \<^verbatim>\<open>loadDataLocal\<close> found nothing stored.\<close>

definition initial_state :: "config \<Rightarrow> app_state" where
  "initial_state c =
     \<lparr> config = c, currentData = \<lparr> entries = [], sha = None \<rparr>,
       status = None, local_storage = None \<rparr>"

section \<open>Calendar arithmetic\<close>

lemmas date_eval = MS_PER_DAY_def local_day_def setHours_0_def setHours_end_def addDays_def
  getDay_def isoDate_def

lemmas label_eval = formatChartLabel_def months_def getMonth_def getDate_def
  era_def day_of_era_def year_of_era_def day_of_march_year_def month_from_march_def
  civil_month_def civil_day_def civil_year_def toString_def digits_rev.simps digit_char_def
  char_of_def bit_0

lemma MS_PER_DAY_pos: "0 < MS_PER_DAY"
  by (simp add: MS_PER_DAY_def)

lemma local_day_addDays: "local_day tz (addDays t n) = local_day tz t + n"
proof -
  have "(t + tz + n * MS_PER_DAY) div MS_PER_DAY = (t + tz) div MS_PER_DAY + n"
    using MS_PER_DAY_pos by simp
  then show ?thesis by (simp add: local_day_def addDays_def algebra_simps)
qed

lemma local_day_setHours_0: "local_day tz (setHours_0 tz t) = local_day tz t"
  using MS_PER_DAY_pos by (simp add: local_day_def setHours_0_def)

lemma setHours_0_decomp: "setHours_0 tz t = t - (t + tz) mod MS_PER_DAY"
proof -
  have "(t + tz) div MS_PER_DAY * MS_PER_DAY = (t + tz) - (t + tz) mod MS_PER_DAY"
    by (simp add: minus_mod_eq_div_mult)
  then show ?thesis by (simp add: setHours_0_def local_day_def)
qed

lemma setHours_0_le: "setHours_0 tz t \<le> t"
  using MS_PER_DAY_pos pos_mod_sign[of MS_PER_DAY "t + tz"]
  by (simp add: setHours_0_decomp)

lemma setHours_0_gt: "t < setHours_0 tz t + MS_PER_DAY"
  using MS_PER_DAY_pos pos_mod_bound[of MS_PER_DAY "t + tz"]
  by (simp add: setHours_0_decomp)

lemma setHours_end_eq: "setHours_end tz t = setHours_0 tz t + (MS_PER_DAY - 1)"
  by (simp add: setHours_end_def setHours_0_def)

lemma setHours_0_mono:
  assumes "a \<le> b"
  shows "setHours_0 tz a \<le> setHours_0 tz b"
proof -
  have "(a + tz) div MS_PER_DAY \<le> (b + tz) div MS_PER_DAY"
    using assms MS_PER_DAY_pos by (simp add: zdiv_mono1)
  then show ?thesis using MS_PER_DAY_pos by (simp add: setHours_0_def local_day_def)
qed

lemma setHours_0_idem: "setHours_0 tz (setHours_0 tz t) = setHours_0 tz t"
  by (simp add: setHours_0_decomp[of tz "setHours_0 tz t"]) (simp add: setHours_0_def)

lemma setHours_0_addDays: "setHours_0 tz (addDays t n) = addDays (setHours_0 tz t) n"
  unfolding setHours_0_def local_day_addDays by (simp add: addDays_def algebra_simps)

lemma getDay_range: "0 \<le> getDay tz t \<and> getDay tz t \<le> 6"
  by (simp add: getDay_def)

lemma getDay_sunday:
  "getDay tz (addDays (setHours_0 tz t) (- getDay tz (setHours_0 tz t))) = 0"
  by (simp add: getDay_def local_day_addDays local_day_setHours_0) presburger

section \<open>The values a bucketing loop visits\<close>

lemma bucket_count_step:
  assumes "0 < step" "current \<le> endDate"
  shows "bucket_count step current endDate = Suc (bucket_count step (addDays current step) endDate)"
proof -
  let ?W = "step * MS_PER_DAY"
  have W: "0 < ?W" using assms(1) MS_PER_DAY_pos by simp
  show ?thesis
  proof (cases "addDays current step \<le> endDate")
    case True
    then have ge: "?W \<le> endDate - current" by (simp add: addDays_def)
    have "(endDate - current) div ?W = (endDate - current - ?W) div ?W + 1"
      using W by (metis add.commute diff_add_cancel div_add_self1 less_irrefl)
    moreover have "0 \<le> (endDate - current - ?W) div ?W"
      using W ge by (simp add: pos_imp_zdiv_nonneg_iff)
    ultimately show ?thesis using True assms(2)
      by (simp add: bucket_count_def addDays_def algebra_simps nat_add_distrib)
  next
    case False
    then have "endDate - current < ?W" by (simp add: addDays_def)
    then have "(endDate - current) div ?W = 0" using assms(2) by (simp add: div_pos_pos_trivial)
    then show ?thesis using False assms(2) by (simp add: bucket_count_def)
  qed
qed

lemma bucket_starts_map:
  "0 < step \<Longrightarrow>
   bucket_starts step current endDate =
     map (\<lambda>k. addDays current (step * int k)) [0..<bucket_count step current endDate]"
proof (induction step current endDate rule: bucket_starts.induct)
  case (1 step current endDate)
  show ?case
  proof (cases "current \<le> endDate")
    case True
    have IH: "bucket_starts step (addDays current step) endDate =
       map (\<lambda>k. addDays (addDays current step) (step * int k))
         [0..<bucket_count step (addDays current step) endDate]"
      using "1.IH" "1.prems" True by simp
    have shift: "\<And>k. addDays (addDays current step) (step * int k)
                      = addDays current (step * int (Suc k))"
      by (simp add: addDays_def algebra_simps)
    show ?thesis
      using True "1.prems"
      by (subst bucket_starts.simps)
         (simp add: IH shift bucket_count_step[OF "1.prems" True] upt_conv_Cons
                    map_Suc_upt[symmetric]
               del: upt_Suc, simp add: addDays_def)
  next
    case False
    then show ?thesis
      by (subst bucket_starts.simps) (simp add: bucket_count_def)
  qed
qed

lemma bucket_starts_le:
  assumes "0 < step" "k < bucket_count step current endDate"
  shows "addDays current (step * int k) \<le> endDate"
proof -
  let ?W = "step * MS_PER_DAY"
  have W: "0 < ?W" using assms(1) MS_PER_DAY_pos by simp
  have le: "current \<le> endDate" using assms(2) by (simp add: bucket_count_def split: if_splits)
  moreover have "0 \<le> (endDate - current) div ?W"
    using W le by (simp add: pos_imp_zdiv_nonneg_iff)
  ultimately have "int k \<le> (endDate - current) div ?W"
    using assms(2) by (simp add: bucket_count_def)
  then have "int k * ?W \<le> (endDate - current) div ?W * ?W"
    using W by (simp only: mult_right_mono)
  moreover have "(endDate - current) div ?W * ?W + (endDate - current) mod ?W = endDate - current"
    by (rule div_mult_mod_eq)
  moreover have "0 \<le> (endDate - current) mod ?W"
    using W by simp
  ultimately have "int k * ?W \<le> endDate - current" by linarith
  then show ?thesis by (simp add: addDays_def algebra_simps)
qed

lemma bucket_count_gt:
  assumes "0 < step"
  shows "endDate < addDays current (step * int (bucket_count step current endDate))"
proof (cases "current \<le> endDate")
  case True
  let ?W = "step * MS_PER_DAY"
  let ?d = "endDate - current"
  have W: "0 < ?W" using assms(1) MS_PER_DAY_pos by simp
  have q: "0 \<le> ?d div ?W" using W True by (simp add: pos_imp_zdiv_nonneg_iff)
  have "?d = ?d div ?W * ?W + ?d mod ?W" by (simp only: div_mult_mod_eq)
  moreover have "?d mod ?W < ?W" using W by simp
  ultimately have "?d < (?d div ?W + 1) * ?W" by (simp add: algebra_simps)
  moreover have "int (bucket_count step current endDate) = ?d div ?W + 1"
    using True q by (simp add: bucket_count_def)
  ultimately show ?thesis by (simp add: addDays_def algebra_simps)
next
  case False
  then show ?thesis by (simp add: bucket_count_def addDays_def)
qed

lemma foldl_push_bucket:
  "foldl (\<lambda>d b. push_bucket (L b) (F b) d) data bs =
     \<lparr> beer = beer data @ map (\<lambda>b. count_category ''beer'' (F b)) bs,
       wine = wine data @ map (\<lambda>b. count_category ''wine'' (F b)) bs,
       liquor = liquor data @ map (\<lambda>b. count_category ''liquor'' (F b)) bs,
       smoking = smoking data @ map (\<lambda>b. count_category ''smoking'' (F b)) bs,
       labels = labels data @ map L bs \<rparr>"
  by (induction bs arbitrary: data) (simp_all add: push_bucket_def)

lemma aggregateByWeek_loop_foldl:
  "aggregateByWeek_loop tz es endDate current data =
     foldl (\<lambda>d b. push_bucket (formatChartLabel tz b True)
                     (filter (\<lambda>e. timestamp e \<ge> b \<and> timestamp e \<le> addDays b 6) es) d)
       data (bucket_starts 7 current endDate)"
proof (induction tz es endDate current data rule: aggregateByWeek_loop.induct)
  case (1 tz es endDate current data)
  show ?case
  proof (cases "current \<le> endDate")
    case True
    then show ?thesis
      using "1.IH"[OF True]
      by (subst aggregateByWeek_loop.simps, subst bucket_starts.simps) simp
  next
    case False
    then show ?thesis
      by (subst aggregateByWeek_loop.simps, subst bucket_starts.simps) simp
  qed
qed

lemma aggregateByDay_loop_foldl:
  "aggregateByDay_loop tz es endDate current data =
     foldl (\<lambda>d b. push_bucket (formatChartLabel tz b False)
                     (filter (\<lambda>e. isoDate (timestamp e) = isoDate b) es) d)
       data (bucket_starts 1 current endDate)"
proof (induction tz es endDate current data rule: aggregateByDay_loop.induct)
  case (1 tz es endDate current data)
  show ?case
  proof (cases "current \<le> endDate")
    case True
    then show ?thesis
      using "1.IH"[OF True]
      by (subst aggregateByDay_loop.simps, subst bucket_starts.simps) simp
  next
    case False
    then show ?thesis
      by (subst aggregateByDay_loop.simps, subst bucket_starts.simps) simp
  qed
qed

section \<open>Summary statistics: the grand total\<close>

lemma renderSummaryStats_total:
  "snd (renderSummaryStats es) =
     count_category ''beer'' es + count_category ''wine'' es
     + count_category ''liquor'' es + count_category ''smoking'' es"
  by (simp add: renderSummaryStats_def category_stats_def Let_def)

text \<open>
  Claim C1.  The grand total of the summary statistics should be the sum of the four
  per-category counts, each counted once.  In \<^verbatim>\<open>app.js\<close> a single wine entry gives
  the counts 0, 1, 0, 0 and the total 2: wine is added twice.
\<close>

theorem C1_app_total_counts_wine_twice:
  "renderSummaryStats_app [\<lparr>entry_id = ''1'', timestamp = 0, category = ''wine''\<rparr>]
     = (\<lparr>beer = 0, wine = 1, liquor = 0, smoking = 0\<rparr>, 2)"
  by (simp add: renderSummaryStats_app_def category_stats_def count_category_def Let_def)

section \<open>The reporting window\<close>

lemma timestamp_first_entry:
  assumes "es \<noteq> []"
  shows "timestamp (first_entry es) = Min (timestamp ` set es)"
proof -
  let ?ss = "sort_key timestamp es"
  have ne: "?ss \<noteq> []" using assms by (metis length_sort list.size(3) length_0_conv)
  have srt: "sorted (map timestamp ?ss)" by (rule sorted_sort_key)
  have st: "set ?ss = set es" by simp
  have "hd (map timestamp ?ss) = Min (set (map timestamp ?ss))"
    using srt ne by (cases ?ss) (auto intro!: Min_eqI[symmetric])
  then show ?thesis using ne st by (simp add: first_entry_def hd_map)
qed

text \<open>
  Claim C2, as stated, fails for \<^verbatim>\<open>app.js\<close>: with one entry on 2024-01-01 10:00 UTC,
  a period of 7 days and now = 2024-01-10 09:00 UTC, its window starts seven days before
  now, on 2024-01-03 09:00, not at midnight of 2024-01-01.
\<close>

theorem C2_app_start_counterexample:
  "fst (updateChart_window_app 0
          [\<lparr>entry_id = ''1704103200000'', timestamp = 1704103200000, category = ''beer''\<rparr>]
          7 1704877200000)
   \<noteq> setHours_0 0 (Min (timestamp ` set
          [\<lparr>entry_id = ''1704103200000'', timestamp = 1704103200000, category = ''beer''\<rparr>]))"
  by (simp add: updateChart_window_app_def date_eval)

text \<open>
  Claim C2, amended.  In the variant that anchors the window at the first entry (the
  unnamed file), for every non-empty entry list, every period and every now, the window
  starts at the local midnight of the day of the earliest timestamp.  In \<^verbatim>\<open>app.js\<close>
  the window starts \<open>period\<close> days before now, whatever the entries are.
\<close>

theorem C2_window_start:
  "es \<noteq> [] \<Longrightarrow>
     fst (updateChart_window tz es period now) = setHours_0 tz (Min (timestamp ` set es))
     \<and> fst (updateChart_window_app tz es period now) = addDays now (- period)"
  by (simp add: updateChart_window_def updateChart_window_app_def Let_def timestamp_first_entry)

theorem C2_window_start_witness:
  "[\<lparr>entry_id = ''1704103200000'', timestamp = 1704103200000, category = ''beer''\<rparr>,
    \<lparr>entry_id = ''1704132000000'', timestamp = 1704132000000, category = ''wine''\<rparr>,
    \<lparr>entry_id = ''1704283200000'', timestamp = 1704283200000, category = ''beer''\<rparr>] \<noteq> []
   \<and> fst (updateChart_window 0
       [\<lparr>entry_id = ''1704103200000'', timestamp = 1704103200000, category = ''beer''\<rparr>,
        \<lparr>entry_id = ''1704132000000'', timestamp = 1704132000000, category = ''wine''\<rparr>,
        \<lparr>entry_id = ''1704283200000'', timestamp = 1704283200000, category = ''beer''\<rparr>]
       7 1704877200000) = 1704067200000
   \<and> fst (updateChart_window_app 0
       [\<lparr>entry_id = ''1704103200000'', timestamp = 1704103200000, category = ''beer''\<rparr>,
        \<lparr>entry_id = ''1704132000000'', timestamp = 1704132000000, category = ''wine''\<rparr>,
        \<lparr>entry_id = ''1704283200000'', timestamp = 1704283200000, category = ''beer''\<rparr>]
       7 1704877200000) = 1704272400000"
  using C2_window_start[of
       "[\<lparr>entry_id = ''1704103200000'', timestamp = 1704103200000, category = ''beer''\<rparr>,
        \<lparr>entry_id = ''1704132000000'', timestamp = 1704132000000, category = ''wine''\<rparr>,
        \<lparr>entry_id = ''1704283200000'', timestamp = 1704283200000, category = ''beer''\<rparr>]"
       0 7 1704877200000]
  by (simp add: date_eval)

text \<open>
  Claim C3, as stated, fails when the earliest entry lies after the end of the current
  day (a file written while the clock was ahead): with one entry at day 2 of the epoch
  and now = 0, the window runs from 172800000 back to 86399999.
\<close>

theorem C3_future_entry_counterexample:
  "\<not> fst (updateChart_window 0
            [\<lparr>entry_id = ''172800000'', timestamp = 172800000, category = ''beer''\<rparr>] 7 0)
     \<le> snd (updateChart_window 0
            [\<lparr>entry_id = ''172800000'', timestamp = 172800000, category = ''beer''\<rparr>] 7 0)"
  by (simp add: updateChart_window_def first_entry_def Let_def date_eval)

text \<open>
  Claim C3, amended.  For every period of at least one day and every now, the window
  satisfies start \<open>\<le>\<close> end whenever the entry list is empty or its earliest timestamp
  is not after the end of the current local day; in \<^verbatim>\<open>app.js\<close> it does so for
  every entry list.
\<close>

theorem C3_window_ordered:
  assumes "1 \<le> period"
    and "es = [] \<or> Min (timestamp ` set es) \<le> setHours_end tz now"
  shows "fst (updateChart_window tz es period now) \<le> snd (updateChart_window tz es period now)
     \<and> fst (updateChart_window_app tz es' period now)
         \<le> snd (updateChart_window_app tz es' period now)"
proof -
  have app: "fst (updateChart_window_app tz es' period now)
               \<le> snd (updateChart_window_app tz es' period now)"
    using assms(1) MS_PER_DAY_pos by (simp add: updateChart_window_app_def Let_def addDays_def)
  have "fst (updateChart_window tz es period now) \<le> snd (updateChart_window tz es period now)"
  proof (cases "es = []")
    case True
    have "now \<le> setHours_end tz now"
      using setHours_0_gt[of now tz] by (simp add: setHours_end_eq)
    moreover have "addDays now (- period) \<le> now"
      using assms(1) MS_PER_DAY_pos by (simp add: addDays_def)
    ultimately show ?thesis using True by (simp add: updateChart_window_def Let_def)
  next
    case False
    let ?f = "setHours_0 tz (Min (timestamp ` set es))"
    have "Min (timestamp ` set es) \<le> setHours_end tz now" using assms(2) False by simp
    then have "?f \<le> setHours_0 tz (setHours_end tz now)" by (rule setHours_0_mono)
    moreover have "setHours_0 tz (setHours_end tz now) \<le> setHours_end tz now"
      by (rule setHours_0_le)
    ultimately have a: "?f \<le> setHours_end tz now" by simp
    have b: "?f \<le> addDays ?f (period - 1)"
      using assms(1) MS_PER_DAY_pos by (simp add: addDays_def)
    show ?thesis
      using False a b by (simp add: updateChart_window_def Let_def timestamp_first_entry)
  qed
  with app show ?thesis by simp
qed

theorem C3_window_ordered_witness:
  "(1::int) \<le> 7
   \<and> Min (timestamp ` set
        [\<lparr>entry_id = ''1704103200000'', timestamp = 1704103200000, category = ''beer''\<rparr>,
         \<lparr>entry_id = ''1704283200000'', timestamp = 1704283200000, category = ''beer''\<rparr>])
       \<le> setHours_end 0 1704877200000
   \<and> fst (updateChart_window 0
        [\<lparr>entry_id = ''1704103200000'', timestamp = 1704103200000, category = ''beer''\<rparr>,
         \<lparr>entry_id = ''1704283200000'', timestamp = 1704283200000, category = ''beer''\<rparr>]
        7 1704877200000)
      \<le> snd (updateChart_window 0
        [\<lparr>entry_id = ''1704103200000'', timestamp = 1704103200000, category = ''beer''\<rparr>,
         \<lparr>entry_id = ''1704283200000'', timestamp = 1704283200000, category = ''beer''\<rparr>]
        7 1704877200000)"
proof -
  have h1: "(1::int) \<le> 7" by simp
  have h2: "Min (timestamp ` set
        [\<lparr>entry_id = ''1704103200000'', timestamp = 1704103200000, category = ''beer''\<rparr>,
         \<lparr>entry_id = ''1704283200000'', timestamp = 1704283200000, category = ''beer''\<rparr>])
       \<le> setHours_end 0 1704877200000"
    by (simp add: date_eval)
  show ?thesis
    using h1 h2 C3_window_ordered[OF h1 disjI2, OF h2, of "[]"] by blast
qed

section \<open>Week and day buckets\<close>

lemma aggregateByWeek_buckets:
  "aggregateByWeek tz es startDate endDate =
     \<lparr> beer = map (\<lambda>b. count_category ''beer''
                (filter (\<lambda>e. b \<le> timestamp e \<and> timestamp e \<le> addDays b 6) es))
                (bucket_starts 7 (addDays (setHours_0 tz startDate)
                                    (- getDay tz (setHours_0 tz startDate))) endDate),
       wine = map (\<lambda>b. count_category ''wine''
                (filter (\<lambda>e. b \<le> timestamp e \<and> timestamp e \<le> addDays b 6) es))
                (bucket_starts 7 (addDays (setHours_0 tz startDate)
                                    (- getDay tz (setHours_0 tz startDate))) endDate),
       liquor = map (\<lambda>b. count_category ''liquor''
                (filter (\<lambda>e. b \<le> timestamp e \<and> timestamp e \<le> addDays b 6) es))
                (bucket_starts 7 (addDays (setHours_0 tz startDate)
                                    (- getDay tz (setHours_0 tz startDate))) endDate),
       smoking = map (\<lambda>b. count_category ''smoking''
                (filter (\<lambda>e. b \<le> timestamp e \<and> timestamp e \<le> addDays b 6) es))
                (bucket_starts 7 (addDays (setHours_0 tz startDate)
                                    (- getDay tz (setHours_0 tz startDate))) endDate),
       labels = map (\<lambda>b. formatChartLabel tz b True)
                (bucket_starts 7 (addDays (setHours_0 tz startDate)
                                    (- getDay tz (setHours_0 tz startDate))) endDate) \<rparr>"
  unfolding aggregateByWeek_def Let_def aggregateByWeek_loop_foldl foldl_push_bucket
  by (simp add: empty_chart_data_def)

lemma aggregateByDay_buckets:
  "aggregateByDay tz es startDate endDate =
     \<lparr> beer = map (\<lambda>b. count_category ''beer''
                (filter (\<lambda>e. isoDate (timestamp e) = isoDate b) es))
                (bucket_starts 1 (setHours_0 tz startDate) endDate),
       wine = map (\<lambda>b. count_category ''wine''
                (filter (\<lambda>e. isoDate (timestamp e) = isoDate b) es))
                (bucket_starts 1 (setHours_0 tz startDate) endDate),
       liquor = map (\<lambda>b. count_category ''liquor''
                (filter (\<lambda>e. isoDate (timestamp e) = isoDate b) es))
                (bucket_starts 1 (setHours_0 tz startDate) endDate),
       smoking = map (\<lambda>b. count_category ''smoking''
                (filter (\<lambda>e. isoDate (timestamp e) = isoDate b) es))
                (bucket_starts 1 (setHours_0 tz startDate) endDate),
       labels = map (\<lambda>b. formatChartLabel tz b False)
                (bucket_starts 1 (setHours_0 tz startDate) endDate) \<rparr>"
  unfolding aggregateByDay_def aggregateByDay_loop_foldl foldl_push_bucket
  by (simp add: empty_chart_data_def)

text \<open>
  What week mode computes in a zone with a fixed offset: the first bucket starts at the
  local midnight of the Sunday on or before \<open>startDate\<close>; the bucket starts step by 7
  days and are exactly those that are \<open>\<le> endDate\<close>; the label of a bucket is the short
  date of its start day; the entries it counts are those between its start and the same
  time six days later, both taken as instants.
\<close>

lemma aggregateByWeek_bucket_sequence:
  "(let sunday = addDays (setHours_0 tz startDate) (- getDay tz (setHours_0 tz startDate));
        starts = map (\<lambda>k. addDays sunday (7 * int k)) [0..<bucket_count 7 sunday endDate]
    in getDay tz sunday = 0 \<and> setHours_0 tz sunday = sunday
       \<and> sunday \<le> startDate \<and> startDate < addDays sunday 7
       \<and> (\<forall>b \<in> set starts. b \<le> endDate)
       \<and> endDate < addDays sunday (7 * int (bucket_count 7 sunday endDate))
       \<and> aggregateByWeek tz es startDate endDate =
           \<lparr> beer = map (\<lambda>b. count_category ''beer''
                      (filter (\<lambda>e. b \<le> timestamp e \<and> timestamp e \<le> addDays b 6) es)) starts,
             wine = map (\<lambda>b. count_category ''wine''
                      (filter (\<lambda>e. b \<le> timestamp e \<and> timestamp e \<le> addDays b 6) es)) starts,
             liquor = map (\<lambda>b. count_category ''liquor''
                      (filter (\<lambda>e. b \<le> timestamp e \<and> timestamp e \<le> addDays b 6) es)) starts,
             smoking = map (\<lambda>b. count_category ''smoking''
                      (filter (\<lambda>e. b \<le> timestamp e \<and> timestamp e \<le> addDays b 6) es)) starts,
             labels = map (\<lambda>b. formatChartLabel tz b True) starts \<rparr>)"
proof -
  let ?m = "setHours_0 tz startDate"
  let ?sunday = "addDays ?m (- getDay tz ?m)"
  let ?starts = "map (\<lambda>k. addDays ?sunday (7 * int k)) [0..<bucket_count 7 ?sunday endDate]"
  have a: "getDay tz ?sunday = 0"
    by (rule getDay_sunday)
  have b: "setHours_0 tz ?sunday = ?sunday"
    by (simp only: setHours_0_addDays setHours_0_idem)
  have "0 \<le> getDay tz ?m * MS_PER_DAY"
    using getDay_range[of tz ?m] MS_PER_DAY_pos by simp
  then have c: "?sunday \<le> startDate"
    using setHours_0_le[of tz startDate] by (simp add: addDays_def)
  have "getDay tz ?m * MS_PER_DAY \<le> 6 * MS_PER_DAY"
    using getDay_range[of tz ?m] MS_PER_DAY_pos by (simp only: mult_right_mono)
  then have d: "startDate < addDays ?sunday 7"
    using setHours_0_gt[of startDate tz] by (simp add: addDays_def)
  have e: "\<forall>b \<in> set ?starts. b \<le> endDate"
  proof
    fix b assume "b \<in> set ?starts"
    then obtain k where "k < bucket_count 7 ?sunday endDate" "b = addDays ?sunday (7 * int k)"
      by auto
    then show "b \<le> endDate" using bucket_starts_le[of 7 k ?sunday endDate] by simp
  qed
  have f: "endDate < addDays ?sunday (7 * int (bucket_count 7 ?sunday endDate))"
    by (rule bucket_count_gt) simp
  have st: "bucket_starts 7 ?sunday endDate = ?starts"
    by (rule bucket_starts_map) simp
  have g: "aggregateByWeek tz es startDate endDate =
           \<lparr> beer = map (\<lambda>b. count_category ''beer''
                      (filter (\<lambda>e. b \<le> timestamp e \<and> timestamp e \<le> addDays b 6) es)) ?starts,
             wine = map (\<lambda>b. count_category ''wine''
                      (filter (\<lambda>e. b \<le> timestamp e \<and> timestamp e \<le> addDays b 6) es)) ?starts,
             liquor = map (\<lambda>b. count_category ''liquor''
                      (filter (\<lambda>e. b \<le> timestamp e \<and> timestamp e \<le> addDays b 6) es)) ?starts,
             smoking = map (\<lambda>b. count_category ''smoking''
                      (filter (\<lambda>e. b \<le> timestamp e \<and> timestamp e \<le> addDays b 6) es)) ?starts,
             labels = map (\<lambda>b. formatChartLabel tz b True) ?starts \<rparr>"
    unfolding aggregateByWeek_buckets st by (rule refl)
  show ?thesis
    unfolding Let_def by (intro conjI a b c d e f g)
qed

text \<open>
  Claim C4.  A week bucket should cover its start day and the six days after it, Sunday
  to Saturday, and count every entry whose timestamp falls on one of them.  The code
  computes \<^verbatim>\<open>weekEnd\<close> as the bucket start plus six days and never moves it to the end
  of that day, so the bucket ends at Saturday 00:00.  In UTC, with a wine on Wednesday
  2024-01-10 12:00 and a beer on Saturday 2024-01-13 15:00, and the window from
  2024-01-10 00:00 to 2024-01-14 23:59:59.999 (the one \<^verbatim>\<open>updateChart\<close> computes for
  period 90 at 2024-01-14 10:00), the buckets start on Sunday 2024-01-07 and Sunday
  2024-01-14; the beer, logged on the sixth day after 2024-01-07, is counted in neither.
\<close>

theorem C4_saturday_entry_in_no_bucket:
  "aggregateByWeek 0
     [\<lparr>entry_id = ''1704888000000'', timestamp = 1704888000000, category = ''wine''\<rparr>,
      \<lparr>entry_id = ''1705158000000'', timestamp = 1705158000000, category = ''beer''\<rparr>]
     1704844800000 1705276799999
   = \<lparr> beer = [0, 0], wine = [1, 0], liquor = [0, 0], smoking = [0, 0],
       labels = [''Jan 7'', ''Jan 14''] \<rparr>
   \<and> getDay 0 1704585600000 = 0
   \<and> formatChartLabel 0 1704585600000 True = ''Jan 7''
   \<and> getDay 0 1705158000000 = 6
   \<and> local_day 0 1705158000000 = local_day 0 1704585600000 + 6"
proof -
  have s1: "addDays (setHours_0 0 1704844800000) (- getDay 0 (setHours_0 0 1704844800000))
              = 1704585600000"
    by (simp add: date_eval)
  have s2: "bucket_count 7 1704585600000 1705276799999 = 2"
    by (simp add: bucket_count_def MS_PER_DAY_def)
  have s3: "bucket_starts 7 1704585600000 1705276799999 = [1704585600000, 1705190400000]"
    by (simp add: bucket_starts_map s2 upt_conv_Cons date_eval)
  have s4: "formatChartLabel 0 1704585600000 True = ''Jan 7''"
    by (simp add: label_eval date_eval)
  have s5: "formatChartLabel 0 1705190400000 True = ''Jan 14''"
    by (simp add: label_eval date_eval)
  have week: "aggregateByWeek 0
     [\<lparr>entry_id = ''1704888000000'', timestamp = 1704888000000, category = ''wine''\<rparr>,
      \<lparr>entry_id = ''1705158000000'', timestamp = 1705158000000, category = ''beer''\<rparr>]
     1704844800000 1705276799999
   = \<lparr> beer = [0, 0], wine = [1, 0], liquor = [0, 0], smoking = [0, 0],
       labels = [''Jan 7'', ''Jan 14''] \<rparr>"
    unfolding aggregateByWeek_buckets s1 s3
    by (simp add: s4 s5 count_category_def addDays_def MS_PER_DAY_def)
  have d1: "getDay 0 1704585600000 = 0" by (simp add: date_eval)
  have d2: "getDay 0 1705158000000 = 6" by (simp add: date_eval)
  have d3: "local_day 0 1705158000000 = local_day 0 1704585600000 + 6" by (simp add: date_eval)
  show ?thesis using week s4 d1 d2 d3 by simp
qed

text \<open>
  Claim C5.  Bucketing should neither drop nor double-count an entry: per category, the
  bucket counts should add up to the summary count over the same filtered entries.  The
  code loses entries in both modes.  Week mode, UTC: one beer on Saturday 2024-01-06 12:00,
  period 90, now = 2024-01-10 09:00; the week of Sunday 2023-12-31 ends for the code at
  Saturday 00:00, the next starts on Sunday 2024-01-07, so both buckets are empty while the
  summary counts one beer.  Day mode, UTC+2: one beer on 2024-01-01 10:00 local time,
  period 7, now = 12:00 the same day; the only bucket is compared by its UTC date
  (2023-12-31) with the entry's UTC date (2024-01-01) and stays empty.
\<close>

theorem C5_buckets_lose_entries:
  "updateChart 0
     [\<lparr>entry_id = ''1704542400000'', timestamp = 1704542400000, category = ''beer''\<rparr>]
     90 1704877200000
   = (\<lparr> beer = [0, 0], wine = [0, 0], liquor = [0, 0], smoking = [0, 0],
        labels = [''Dec 31'', ''Jan 7''] \<rparr>,
      \<lparr> beer = 1, wine = 0, liquor = 0, smoking = 0 \<rparr>, 1)
   \<and> updateChart 7200000
     [\<lparr>entry_id = ''1704096000000'', timestamp = 1704096000000, category = ''beer''\<rparr>]
     7 1704103200000
   = (\<lparr> beer = [0], wine = [0], liquor = [0], smoking = [0], labels = [''Jan 1''] \<rparr>,
      \<lparr> beer = 1, wine = 0, liquor = 0, smoking = 0 \<rparr>, 1)"
proof -
  let ?e = "\<lparr>entry_id = ''1704542400000'', timestamp = 1704542400000, category = ''beer''\<rparr>"
  have w: "updateChart_window 0 [?e] 90 1704877200000 = (1704499200000, 1704931199999)"
    by (simp add: updateChart_window_def first_entry_def Let_def date_eval)
  have f: "filter_range 1704499200000 1704931199999 [?e] = [?e]"
    by (simp add: filter_range_def)
  have s1: "addDays (setHours_0 0 1704499200000) (- getDay 0 (setHours_0 0 1704499200000))
              = 1703980800000"
    by (simp add: date_eval)
  have s2: "bucket_count 7 1703980800000 1704931199999 = 2"
    by (simp add: bucket_count_def MS_PER_DAY_def)
  have s3: "bucket_starts 7 1703980800000 1704931199999 = [1703980800000, 1704585600000]"
    by (simp add: bucket_starts_map s2 upt_conv_Cons date_eval)
  have s4: "formatChartLabel 0 1703980800000 True = ''Dec 31''"
    by (simp add: label_eval date_eval)
  have s5: "formatChartLabel 0 1704585600000 True = ''Jan 7''"
    by (simp add: label_eval date_eval)
  have week: "aggregateByWeek 0 [?e] 1704499200000 1704931199999
     = \<lparr> beer = [0, 0], wine = [0, 0], liquor = [0, 0], smoking = [0, 0],
        labels = [''Dec 31'', ''Jan 7''] \<rparr>"
    unfolding aggregateByWeek_buckets s1 s3
    by (simp add: s4 s5 count_category_def addDays_def MS_PER_DAY_def)
  have st: "renderSummaryStats [?e] = (\<lparr> beer = 1, wine = 0, liquor = 0, smoking = 0 \<rparr>, 1)"
    by (simp add: renderSummaryStats_def category_stats_def count_category_def Let_def)
  have A: "updateChart 0 [?e] 90 1704877200000
   = (\<lparr> beer = [0, 0], wine = [0, 0], liquor = [0, 0], smoking = [0, 0],
        labels = [''Dec 31'', ''Jan 7''] \<rparr>,
      \<lparr> beer = 1, wine = 0, liquor = 0, smoking = 0 \<rparr>, 1)"
    unfolding updateChart_def w by (simp add: f week st)
  let ?d = "\<lparr>entry_id = ''1704096000000'', timestamp = 1704096000000, category = ''beer''\<rparr>"
  have w': "updateChart_window 7200000 [?d] 7 1704103200000 = (1704060000000, 1704146399999)"
    by (simp add: updateChart_window_def first_entry_def Let_def date_eval)
  have f': "filter_range 1704060000000 1704146399999 [?d] = [?d]"
    by (simp add: filter_range_def)
  have d1: "setHours_0 7200000 1704060000000 = 1704060000000"
    by (simp add: date_eval)
  have d2: "bucket_count 1 1704060000000 1704146399999 = 1"
    by (simp add: bucket_count_def MS_PER_DAY_def)
  have d3: "bucket_starts 1 1704060000000 1704146399999 = [1704060000000]"
    by (simp add: bucket_starts_map d2 date_eval)
  have d4: "formatChartLabel 7200000 1704060000000 False = ''Jan 1''"
    by (simp add: label_eval date_eval)
  have day: "aggregateByDay 7200000 [?d] 1704060000000 1704146399999
     = \<lparr> beer = [0], wine = [0], liquor = [0], smoking = [0], labels = [''Jan 1''] \<rparr>"
    unfolding aggregateByDay_buckets d1 d3
    by (simp add: d4 count_category_def isoDate_def MS_PER_DAY_def)
  have st': "renderSummaryStats [?d] = (\<lparr> beer = 1, wine = 0, liquor = 0, smoking = 0 \<rparr>, 1)"
    by (simp add: renderSummaryStats_def category_stats_def count_category_def Let_def)
  have B: "updateChart 7200000 [?d] 7 1704103200000
   = (\<lparr> beer = [0], wine = [0], liquor = [0], smoking = [0], labels = [''Jan 1''] \<rparr>,
      \<lparr> beer = 1, wine = 0, liquor = 0, smoking = 0 \<rparr>, 1)"
    unfolding updateChart_def w' by (simp add: f' day st')
  show ?thesis using A B by simp
qed


text \<open>
  Day mode has one bucket per local calendar day, from the day of \<open>startDate\<close> to the
  day of \<open>endDate\<close>.
\<close>

lemma aggregateByDay_one_bucket_per_day:
  "labels (aggregateByDay tz es startDate endDate) =
     map (\<lambda>k. formatChartLabel tz (addDays (setHours_0 tz startDate) (int k)) False)
       [0..<bucket_count 1 (setHours_0 tz startDate) endDate]"
  by (simp add: aggregateByDay_buckets bucket_starts_map)

lemma day_bucket_count:
  assumes "startDate \<le> endDate"
  shows "bucket_count 1 (setHours_0 tz startDate) endDate
           = nat (local_day tz endDate - local_day tz startDate + 1)"
proof -
  have le: "setHours_0 tz startDate \<le> endDate"
    using setHours_0_le[of tz startDate] assms by simp
  have "endDate - setHours_0 tz startDate
          = addDays endDate (- local_day tz startDate) + tz"
    by (simp add: setHours_0_def addDays_def)
  then have "(endDate - setHours_0 tz startDate) div MS_PER_DAY
          = (addDays endDate (- local_day tz startDate) + tz) div MS_PER_DAY"
    by (rule arg_cong)
  also have "\<dots> = (endDate + tz) div MS_PER_DAY + (- local_day tz startDate)"
    by (rule local_day_addDays[unfolded local_day_def])
  finally have "(endDate - setHours_0 tz startDate) div MS_PER_DAY
          = local_day tz endDate - local_day tz startDate"
    by (simp add: local_day_def)
  moreover have "local_day tz startDate \<le> local_day tz endDate"
    using assms MS_PER_DAY_pos by (simp add: local_day_def zdiv_mono1)
  ultimately show ?thesis using le by (simp add: bucket_count_def)
qed


text \<open>In the UTC zone itself the ISO date of an instant is its local calendar day.\<close>

lemma isoDate_utc: "isoDate t = local_day 0 t"
  by (simp add: isoDate_def local_day_def)

text \<open>
  Claim C6.  Day mode makes one bucket per local calendar day (the loop starts at the local
  midnight of \<open>startDate\<close> and advances one day while \<open>current \<le> endDate\<close>), but it
  matches entries to buckets by comparing \<^verbatim>\<open>toISOString()\<close> dates, which are UTC
  dates, both for the entry and for the bucket's local midnight.  In a zone two hours east
  of UTC, with one beer on 2024-01-01 10:00 local time, period 7 and now = 2024-01-03
  12:00 local time, the beer is counted in the bucket labelled Jan 2, although its own
  local date is Jan 1.
\<close>

theorem C6_day_bucket_by_utc_date:
  "updateChart 7200000
     [\<lparr>entry_id = ''1704096000000'', timestamp = 1704096000000, category = ''beer''\<rparr>]
     7 1704276000000
   = (\<lparr> beer = [0, 1, 0], wine = [0, 0, 0], liquor = [0, 0, 0], smoking = [0, 0, 0],
        labels = [''Jan 1'', ''Jan 2'', ''Jan 3''] \<rparr>,
      \<lparr> beer = 1, wine = 0, liquor = 0, smoking = 0 \<rparr>, 1)
   \<and> formatChartLabel 7200000 1704096000000 False = ''Jan 1''"
proof -
  let ?d = "\<lparr>entry_id = ''1704096000000'', timestamp = 1704096000000, category = ''beer''\<rparr>"
  have w: "updateChart_window 7200000 [?d] 7 1704276000000 = (1704060000000, 1704319199999)"
    by (simp add: updateChart_window_def first_entry_def Let_def date_eval)
  have f: "filter_range 1704060000000 1704319199999 [?d] = [?d]"
    by (simp add: filter_range_def)
  have d1: "setHours_0 7200000 1704060000000 = 1704060000000"
    by (simp add: date_eval)
  have d2: "bucket_count 1 1704060000000 1704319199999 = 3"
    by (simp add: bucket_count_def MS_PER_DAY_def)
  have d3: "bucket_starts 1 1704060000000 1704319199999
              = [1704060000000, 1704146400000, 1704232800000]"
    by (simp add: bucket_starts_map d2 upt_conv_Cons date_eval)
  have l1: "formatChartLabel 7200000 1704060000000 False = ''Jan 1''"
    by (simp add: label_eval date_eval)
  have l2: "formatChartLabel 7200000 1704146400000 False = ''Jan 2''"
    by (simp add: label_eval date_eval)
  have l3: "formatChartLabel 7200000 1704232800000 False = ''Jan 3''"
    by (simp add: label_eval date_eval)
  have l4: "formatChartLabel 7200000 1704096000000 False = ''Jan 1''"
    by (simp add: label_eval date_eval)
  have day: "aggregateByDay 7200000 [?d] 1704060000000 1704319199999
     = \<lparr> beer = [0, 1, 0], wine = [0, 0, 0], liquor = [0, 0, 0], smoking = [0, 0, 0],
         labels = [''Jan 1'', ''Jan 2'', ''Jan 3''] \<rparr>"
    unfolding aggregateByDay_buckets d1 d3
    by (simp add: l1 l2 l3 count_category_def isoDate_def MS_PER_DAY_def)
  have st: "renderSummaryStats [?d] = (\<lparr> beer = 1, wine = 0, liquor = 0, smoking = 0 \<rparr>, 1)"
    by (simp add: renderSummaryStats_def category_stats_def count_category_def Let_def)
  have "updateChart 7200000 [?d] 7 1704276000000
   = (\<lparr> beer = [0, 1, 0], wine = [0, 0, 0], liquor = [0, 0, 0], smoking = [0, 0, 0],
        labels = [''Jan 1'', ''Jan 2'', ''Jan 3''] \<rparr>,
      \<lparr> beer = 1, wine = 0, liquor = 0, smoking = 0 \<rparr>, 1)"
    unfolding updateChart_def w by (simp add: f day st)
  then show ?thesis using l4 by simp
qed

section \<open>Order of the table rows\<close>

lemma dailyData_loop_sorted:
  assumes "sorted_wrt (\<lambda>a b. date a < date b) acc"
    and "\<forall>r \<in> set acc. date r < current \<and> 0 < total r"
  shows "sorted_wrt (\<lambda>a b. date a < date b) (dailyData_loop es endDate current acc)
     \<and> (\<forall>r \<in> set (dailyData_loop es endDate current acc). 0 < total r)"
  using assms
proof (induction es endDate current acc rule: dailyData_loop.induct)
  case (1 es endDate current dailyData)
  show ?case
  proof (cases "current \<le> endDate")
    case False
    then show ?thesis using "1.prems" by (subst (1 2) dailyData_loop.simps) simp
  next
    case True
    let ?dayEntries = "filter (\<lambda>e. isoDate (timestamp e) = isoDate current) es"
    let ?b = "count_category ''beer'' ?dayEntries"
    let ?w = "count_category ''wine'' ?dayEntries"
    let ?l = "count_category ''liquor'' ?dayEntries"
    let ?s = "count_category ''smoking'' ?dayEntries"
    let ?t = "?b + ?w + ?l + ?s"
    let ?row = "\<lparr> beer = ?b, wine = ?w, liquor = ?l, smoking = ?s, date = current, total = ?t \<rparr>"
    let ?acc = "if ?t > 0 then dailyData @ [?row] else dailyData"
    have step: "dailyData_loop es endDate current dailyData
                  = dailyData_loop es endDate (addDays current 1) ?acc"
      using True by (subst dailyData_loop.simps) (simp add: Let_def)
    have lt: "current < addDays current 1" by (simp add: addDays_def MS_PER_DAY_def)
    have s: "sorted_wrt (\<lambda>a b. date a < date b) ?acc"
      using "1.prems" by (auto simp: sorted_wrt_append)
    have b: "\<forall>r \<in> set ?acc. date r < addDays current 1 \<and> 0 < total r"
      using "1.prems"(2) lt by auto
    show ?thesis
      unfolding step
      by (rule "1.IH"[OF True refl refl refl refl refl refl s b])
  qed
qed

text \<open>
  The loop visits the local midnights of the days of the window, computes the row of each
  and keeps those with a positive total.
\<close>

lemma dailyData_loop_rows:
  "dailyData_loop es endDate current dailyData =
     dailyData @ filter (\<lambda>r. 0 < total r) (map (day_row_of es) (bucket_starts 1 current endDate))"
proof (induction es endDate current dailyData rule: dailyData_loop.induct)
  case (1 es endDate current dailyData)
  show ?case
  proof (cases "current \<le> endDate")
    case False
    then show ?thesis
      by (subst dailyData_loop.simps, subst bucket_starts.simps) simp
  next
    case True
    let ?dayEntries = "filter (\<lambda>e. isoDate (timestamp e) = isoDate current) es"
    let ?b = "count_category ''beer'' ?dayEntries"
    let ?w = "count_category ''wine'' ?dayEntries"
    let ?l = "count_category ''liquor'' ?dayEntries"
    let ?s = "count_category ''smoking'' ?dayEntries"
    let ?t = "?b + ?w + ?l + ?s"
    let ?row = "\<lparr> beer = ?b, wine = ?w, liquor = ?l, smoking = ?s, date = current, total = ?t \<rparr>"
    let ?acc = "if ?t > 0 then dailyData @ [?row] else dailyData"
    have step: "dailyData_loop es endDate current dailyData
                  = dailyData_loop es endDate (addDays current 1) ?acc"
      using True by (subst dailyData_loop.simps) (simp add: Let_def)
    have IH: "dailyData_loop es endDate (addDays current 1) ?acc
                = ?acc @ filter (\<lambda>r. 0 < total r)
                           (map (day_row_of es) (bucket_starts 1 (addDays current 1) endDate))"
      by (rule "1.IH"[OF True refl refl refl refl refl refl])
    have row: "day_row_of es current = ?row" by (simp add: day_row_of_def)
    have starts: "bucket_starts 1 current endDate
                    = current # bucket_starts 1 (addDays current 1) endDate"
      using True by (subst bucket_starts.simps) simp
    show ?thesis
      unfolding step IH starts by (simp add: row)
  qed
qed

lemma renderTableView_rows:
  assumes "updateChart_window tz es period now = (startDate, endDate)"
    and "renderTableView tz es period now = Rows rows"
  shows "rows = rev (filter (\<lambda>r. 0 < total r)
                  (map (day_row_of (filter_range startDate endDate es))
                     (bucket_starts 1 (setHours_0 tz startDate) endDate)))"
  using assms(2)
  by (simp add: renderTableView_def assms(1) Let_def dailyData_loop_rows split: if_splits)

text \<open>Whenever the table shows rows, they are in strictly descending order of their date.\<close>

lemma renderTableView_rows_descending:
  assumes "renderTableView tz es period now = Rows rows"
  shows "sorted_wrt (\<lambda>a b. date b < date a) rows \<and> (\<forall>r \<in> set rows. 0 < total r)"
proof -
  obtain startDate endDate where w: "updateChart_window tz es period now = (startDate, endDate)"
    by (cases "updateChart_window tz es period now")
  let ?dd = "dailyData_loop (filter_range startDate endDate es) endDate (setHours_0 tz startDate) []"
  have rows: "rows = rev ?dd"
    using assms by (simp add: renderTableView_def w Let_def split: if_splits)
  have "sorted_wrt (\<lambda>a b. date a < date b) ?dd \<and> (\<forall>r \<in> set ?dd. 0 < total r)"
    by (rule dailyData_loop_sorted) simp_all
  then show ?thesis by (simp add: rows sorted_wrt_rev)
qed

text \<open>
  Claim C10.  The table should show one row for each day with at least one entry, the
  most recent such day first.  The rows do come newest first (the lemma above), but the
  day a row stands for is found by comparing \<^verbatim>\<open>toISOString()\<close> dates, as in
  \<^verbatim>\<open>aggregateByDay\<close>.  In a zone two hours east of UTC, with one beer on Monday
  2024-01-01 10:00 local time, period 7 and now = 2024-01-03 12:00 local time, the table
  has a single row, dated Tuesday 2024-01-02, a day without entries, and no row for the
  day of the beer.
\<close>

theorem C10_row_for_day_without_entry:
  "renderTableView 7200000
     [\<lparr>entry_id = ''1704096000000'', timestamp = 1704096000000, category = ''beer''\<rparr>]
     7 1704276000000
   = Rows [\<lparr> beer = 1, wine = 0, liquor = 0, smoking = 0, date = 1704146400000, total = 1 \<rparr>]
   \<and> formatTableDate 7200000 1704146400000 = ''Tue, Jan 2, 2024''
   \<and> formatTableDate 7200000 1704096000000 = ''Mon, Jan 1, 2024''"
proof -
  let ?d = "\<lparr>entry_id = ''1704096000000'', timestamp = 1704096000000, category = ''beer''\<rparr>"
  have w: "updateChart_window 7200000 [?d] 7 1704276000000 = (1704060000000, 1704319199999)"
    by (simp add: updateChart_window_def first_entry_def Let_def date_eval)
  have f: "filter_range 1704060000000 1704319199999 [?d] = [?d]"
    by (simp add: filter_range_def)
  have z: "setHours_0 7200000 1704060000000 = 1704060000000"
    by (simp add: date_eval)
  have dd: "dailyData_loop [?d] 1704319199999 1704060000000 []
     = [\<lparr> beer = 1, wine = 0, liquor = 0, smoking = 0, date = 1704146400000, total = 1 \<rparr>]"
    by (simp add: dailyData_loop.simps Let_def count_category_def date_eval)
  have eq: "renderTableView 7200000 [?d] 7 1704276000000
   = Rows [\<lparr> beer = 1, wine = 0, liquor = 0, smoking = 0, date = 1704146400000, total = 1 \<rparr>]"
    unfolding renderTableView_def w by (simp add: f z dd)
  have y: "toString 2024 = ''2024''"
    by (simp add: toString_def digits_rev.simps digit_char_def char_of_def bit_0)
  have y1: "getFullYear 7200000 1704146400000 = 2024"
    by (simp add: getFullYear_def civil_year_def civil_month_def month_from_march_def
          day_of_march_year_def year_of_era_def day_of_era_def era_def date_eval)
  have d1: "days ! nat (getDay 7200000 1704146400000) = ''Tue''"
    by (simp add: days_def date_eval)
  have l1: "formatChartLabel 7200000 1704146400000 False = ''Jan 2''"
    by (simp add: label_eval date_eval)
  have t1: "formatTableDate 7200000 1704146400000 = ''Tue, Jan 2, 2024''"
    unfolding formatTableDate_def y1 d1 y using l1 by (simp add: formatChartLabel_def)
  have y2: "getFullYear 7200000 1704096000000 = 2024"
    by (simp add: getFullYear_def civil_year_def civil_month_def month_from_march_def
          day_of_march_year_def year_of_era_def day_of_era_def era_def date_eval)
  have d2: "days ! nat (getDay 7200000 1704096000000) = ''Mon''"
    by (simp add: days_def date_eval)
  have l2: "formatChartLabel 7200000 1704096000000 False = ''Jan 1''"
    by (simp add: label_eval date_eval)
  have t2: "formatTableDate 7200000 1704096000000 = ''Mon, Jan 1, 2024''"
    unfolding formatTableDate_def y2 d2 y using l2 by (simp add: formatChartLabel_def)
  show ?thesis using eq t1 t2 by simp
qed

section \<open>Identifiers\<close>

text \<open>The decimal rendering of an integer determines the integer.\<close>

lemma of_char_digit_char: "d < 10 \<Longrightarrow> of_char (digit_char d) = 48 + d"
  by (simp add: digit_char_def)

lemma digit_char_inj:
  assumes "a < 10" "b < 10" "digit_char a = digit_char b"
  shows "a = b"
proof -
  have "(of_char (digit_char a) :: nat) = of_char (digit_char b)" using assms(3) by simp
  then show ?thesis using assms(1,2) by (simp add: of_char_digit_char)
qed

lemma digit_char_not_minus: "d < 10 \<Longrightarrow> digit_char d \<noteq> CHR ''-''"
proof
  assume d: "d < 10" and eq: "digit_char d = CHR ''-''"
  have "(of_char (digit_char d) :: nat) = of_char (CHR ''-'')" using eq by simp
  then show False using d by (simp add: of_char_digit_char)
qed

lemma digits_rev_not_Nil: "digits_rev n \<noteq> []"
  by (subst digits_rev.simps) simp

lemma minus_notin_digits_rev: "CHR ''-'' \<notin> set (digits_rev n)"
proof (induction n rule: digits_rev.induct)
  case (1 n)
  show ?case
  proof (cases "n < 10")
    case True
    then show ?thesis
      using digit_char_not_minus[of n] by (subst digits_rev.simps) auto
  next
    case False
    have "n mod 10 < 10" by simp
    then have "digit_char (n mod 10) \<noteq> CHR ''-''" by (rule digit_char_not_minus)
    then show ?thesis
      using False "1.IH" by (subst digits_rev.simps) auto
  qed
qed

lemma digits_rev_inj: "digits_rev n = digits_rev m \<Longrightarrow> n = m"
proof (induction n arbitrary: m rule: digits_rev.induct)
  case (1 n)
  show ?case
  proof (cases "n < 10")
    case True
    then have n: "digits_rev n = [digit_char n]" by (subst digits_rev.simps) simp
    show ?thesis
    proof (cases "m < 10")
      case m: True
      then have "digits_rev m = [digit_char m]" by (subst digits_rev.simps) simp
      then show ?thesis using n "1.prems" True m digit_char_inj by simp
    next
      case m: False
      then have "digits_rev m = digit_char (m mod 10) # digits_rev (m div 10)"
        by (subst digits_rev.simps) simp
      then show ?thesis using n "1.prems" digits_rev_not_Nil[of "m div 10"] by simp
    qed
  next
    case False
    then have n: "digits_rev n = digit_char (n mod 10) # digits_rev (n div 10)"
      by (subst digits_rev.simps) simp
    show ?thesis
    proof (cases "m < 10")
      case m: True
      then have "digits_rev m = [digit_char m]" by (subst digits_rev.simps) simp
      then show ?thesis using n "1.prems" digits_rev_not_Nil[of "n div 10"] by simp
    next
      case m: False
      then have "digits_rev m = digit_char (m mod 10) # digits_rev (m div 10)"
        by (subst digits_rev.simps) simp
      then have hd: "digit_char (n mod 10) = digit_char (m mod 10)"
        and tl: "digits_rev (n div 10) = digits_rev (m div 10)"
        using n "1.prems" by simp_all
      have "n mod 10 = m mod 10" using hd by (intro digit_char_inj) simp_all
      moreover have "n div 10 = m div 10" using "1.IH"[OF False tl] .
      ultimately show ?thesis by (metis div_mult_mod_eq)
    qed
  qed
qed

lemma toString_inj: "toString a = toString b \<Longrightarrow> a = b"
proof -
  assume eq: "toString a = toString b"
  have mixed: False if "x < 0" "\<not> y < 0" "toString x = toString y" for x y
  proof -
    have "CHR ''-'' # rev (digits_rev (nat (- x))) = rev (digits_rev (nat y))"
      using that by (simp add: toString_def)
    then have "CHR ''-'' \<in> set (rev (digits_rev (nat y)))" by (metis list.set_intros(1))
    then show False using minus_notin_digits_rev by simp
  qed
  show ?thesis
  proof (cases "a < 0")
    case True
    show ?thesis
    proof (cases "b < 0")
      case b: True
      have "digits_rev (nat (- a)) = digits_rev (nat (- b))"
        using eq True b by (simp add: toString_def)
      then have "nat (- a) = nat (- b)" by (rule digits_rev_inj)
      then show ?thesis using True b by simp
    next
      case False
      then show ?thesis using mixed[OF True False eq] by simp
    qed
  next
    case False
    show ?thesis
    proof (cases "b < 0")
      case b: True
      then show ?thesis using mixed[OF b False eq[symmetric]] by simp
    next
      case b: False
      have "digits_rev (nat a) = digits_rev (nat b)"
        using eq False b by (simp add: toString_def)
      then have "nat a = nat b" by (rule digits_rev_inj)
      then show ?thesis using False b by simp
    qed
  qed
qed

section \<open>Store operations\<close>

lemmas store_eval = addEntry_def deleteEntry_def saveData_def saveDataLocal_def saveData_app_def
  showStatus_def initial_state_def new_entry_def isConfigured_def body_sha_def

lemma addEntry_entries:
  "entries (currentData (state_of (addEntry env now cat s))) = entries (currentData s)
   \<or> entries (currentData (state_of (addEntry env now cat s)))
       = entries (currentData s) @ [new_entry now cat]"
  by (simp add: addEntry_def saveData_def saveDataLocal_def saveData_app_def showStatus_def
        Let_def split: sum.splits option.splits)

lemma addEntry_app_entries:
  "entries (currentData (state_of (addEntry_app env now cat s))) = entries (currentData s)
   \<or> entries (currentData (state_of (addEntry_app env now cat s)))
       = entries (currentData s) @ [new_entry now cat]"
  by (simp add: addEntry_app_def saveData_app_def showStatus_def Let_def split: sum.splits option.splits)

lemma addEntry_config: "config (state_of (addEntry env now cat s)) = config s"
  by (simp add: addEntry_def saveData_def saveDataLocal_def saveData_app_def showStatus_def
        Let_def split: sum.splits option.splits)

lemma saveData_app_eq:
  "mode (config s) = Github \<Longrightarrow> saveData_app env es s = saveData env es s"
  by (simp add: saveData_def)

lemma addEntry_app_eq:
  "mode (config s) = Github \<Longrightarrow> addEntry_app env now cat s = addEntry env now cat s"
  by (simp add: addEntry_def addEntry_app_def saveData_def)

lemma deleteEntry_app_eq:
  "mode (config s) = Github \<Longrightarrow> deleteEntry_app env c i s = deleteEntry env c i s"
  by (simp add: deleteEntry_def deleteEntry_app_def saveData_def)

lemma addEntries_app_eq:
  "mode (config s) = Github \<Longrightarrow> addEntries_app clicks s = addEntries clicks s"
proof (induction clicks arbitrary: s)
  case Nil
  then show ?case by simp
next
  case (Cons c clicks)
  obtain env now cat where c: "c = (env, now, cat)" by (cases c)
  have "mode (config (state_of (addEntry env now cat s))) = Github"
    using Cons.prems by (simp add: addEntry_config)
  then show ?case using Cons.IH Cons.prems by (simp add: c addEntry_app_eq)
qed

lemma addEntries_ids_unique:
  assumes "distinct (map entry_id (entries (currentData s)))"
    and "distinct (map (\<lambda>c. fst (snd c)) clicks)"
    and "\<forall>c \<in> set clicks. toString (fst (snd c)) \<notin> entry_id ` set (entries (currentData s))"
  shows "distinct (map entry_id (entries (currentData (addEntries clicks s))))"
  using assms
proof (induction clicks arbitrary: s)
  case Nil
  then show ?case by simp
next
  case (Cons c clicks)
  obtain env now cat where c: "c = (env, now, cat)" by (cases c)
  let ?s = "state_of (addEntry env now cat s)"
  have fresh: "toString now \<notin> entry_id ` set (entries (currentData s))"
    using Cons.prems(3) by (simp add: c)
  have sub: "entry_id ` set (entries (currentData ?s))
               \<subseteq> insert (toString now) (entry_id ` set (entries (currentData s)))"
    using addEntry_entries[of env now cat s] by (auto simp: new_entry_def)
  have d: "distinct (map entry_id (entries (currentData ?s)))"
    using addEntry_entries[of env now cat s] Cons.prems(1) fresh
    by (auto simp: new_entry_def)
  have later: "\<forall>c' \<in> set clicks. toString (fst (snd c')) \<notin> entry_id ` set (entries (currentData ?s))"
  proof
    fix c' assume c': "c' \<in> set clicks"
    have "fst (snd c') \<noteq> now" using Cons.prems(2) c' by (auto simp: c)
    then have "toString (fst (snd c')) \<noteq> toString now" using toString_inj by blast
    moreover have "toString (fst (snd c')) \<notin> entry_id ` set (entries (currentData s))"
      using Cons.prems(3) c' by simp
    ultimately show "toString (fst (snd c')) \<notin> entry_id ` set (entries (currentData ?s))"
      using sub by blast
  qed
  have "distinct (map (\<lambda>c. fst (snd c)) clicks)" using Cons.prems(2) by simp
  from Cons.IH[OF d this later] show ?case by (simp add: c)
qed

lemma addEntries_app_ids_unique:
  assumes "distinct (map entry_id (entries (currentData s)))"
    and "distinct (map (\<lambda>c. fst (snd c)) clicks)"
    and "\<forall>c \<in> set clicks. toString (fst (snd c)) \<notin> entry_id ` set (entries (currentData s))"
  shows "distinct (map entry_id (entries (currentData (addEntries_app clicks s))))"
  using assms
proof (induction clicks arbitrary: s)
  case Nil
  then show ?case by simp
next
  case (Cons c clicks)
  obtain env now cat where c: "c = (env, now, cat)" by (cases c)
  let ?s = "state_of (addEntry_app env now cat s)"
  have fresh: "toString now \<notin> entry_id ` set (entries (currentData s))"
    using Cons.prems(3) by (simp add: c)
  have sub: "entry_id ` set (entries (currentData ?s))
               \<subseteq> insert (toString now) (entry_id ` set (entries (currentData s)))"
    using addEntry_app_entries[of env now cat s] by (auto simp: new_entry_def)
  have d: "distinct (map entry_id (entries (currentData ?s)))"
    using addEntry_app_entries[of env now cat s] Cons.prems(1) fresh
    by (auto simp: new_entry_def)
  have later: "\<forall>c' \<in> set clicks. toString (fst (snd c')) \<notin> entry_id ` set (entries (currentData ?s))"
  proof
    fix c' assume c': "c' \<in> set clicks"
    have "fst (snd c') \<noteq> now" using Cons.prems(2) c' by (auto simp: c)
    then have "toString (fst (snd c')) \<noteq> toString now" using toString_inj by blast
    moreover have "toString (fst (snd c')) \<notin> entry_id ` set (entries (currentData s))"
      using Cons.prems(3) c' by simp
    ultimately show "toString (fst (snd c')) \<notin> entry_id ` set (entries (currentData ?s))"
      using sub by blast
  qed
  have "distinct (map (\<lambda>c. fst (snd c)) clicks)" using Cons.prems(2) by simp
  from Cons.IH[OF d this later] show ?case by (simp add: c)
qed

text \<open>
  Claim C7, as stated, fails: the id is the clock reading, so two adds that read the same
  millisecond store the same id.
\<close>

theorem C7_same_millisecond_counterexample:
  "\<not> distinct (map entry_id (entries (currentData
       (addEntries
          [(\<lparr> github_put = (\<lambda>sent es. Inr ''abc''), setItem_ok = True, renderAll_error = None \<rparr>, 1704103200000, ''beer''),
           (\<lparr> github_put = (\<lambda>sent es. Inr ''abc''), setItem_ok = True, renderAll_error = None \<rparr>, 1704103200000, ''wine'')]
          (initial_state \<lparr> token = [], owner = [], repo = [], mode = Local \<rparr>)))))"
  by (simp add: store_eval)

text \<open>
  Claim C7, amended.  For every sequence of add operations whose clock readings are
  pairwise distinct, applied to a store whose ids are unique and contain the decimal
  rendering of none of these readings (the empty store in particular), no two stored
  entries share an id, in both variants and whatever the outcome of each save.
\<close>

theorem C7_ids_unique:
  assumes "distinct (map entry_id (entries (currentData s)))"
    and "distinct (map (\<lambda>c. fst (snd c)) clicks)"
    and "\<forall>c \<in> set clicks. toString (fst (snd c)) \<notin> entry_id ` set (entries (currentData s))"
  shows "distinct (map entry_id (entries (currentData (addEntries clicks s))))
     \<and> distinct (map entry_id (entries (currentData (addEntries_app clicks s))))"
  using assms by (simp add: addEntries_ids_unique addEntries_app_ids_unique)

theorem C7_ids_unique_witness:
  "distinct (map (\<lambda>c. fst (snd c))
          [(\<lparr> github_put = (\<lambda>sent es. Inr ''abc''), setItem_ok = True, renderAll_error = None \<rparr>, 1704103200000::int, ''beer''),
           (\<lparr> github_put = (\<lambda>sent es. Inr ''abc''), setItem_ok = True, renderAll_error = None \<rparr>, 1704103200001, ''wine'')])
   \<and> distinct (map entry_id (entries (currentData
       (addEntries
          [(\<lparr> github_put = (\<lambda>sent es. Inr ''abc''), setItem_ok = True, renderAll_error = None \<rparr>, 1704103200000, ''beer''),
           (\<lparr> github_put = (\<lambda>sent es. Inr ''abc''), setItem_ok = True, renderAll_error = None \<rparr>, 1704103200001, ''wine'')]
          (initial_state \<lparr> token = [], owner = [], repo = [], mode = Local \<rparr>)))))"
proof -
  let ?clicks = "[(\<lparr> github_put = (\<lambda>sent es. Inr ''abc''), setItem_ok = True, renderAll_error = None \<rparr>, 1704103200000::int, ''beer''),
           (\<lparr> github_put = (\<lambda>sent es. Inr ''abc''), setItem_ok = True, renderAll_error = None \<rparr>, 1704103200001, ''wine'')]"
  let ?s = "initial_state \<lparr> token = [], owner = [], repo = [], mode = Local \<rparr>"
  have h1: "distinct (map entry_id (entries (currentData ?s)))"
    by (simp add: initial_state_def)
  have h2: "distinct (map (\<lambda>c. fst (snd c)) ?clicks)" by simp
  have h3: "\<forall>c \<in> set ?clicks. toString (fst (snd c)) \<notin> entry_id ` set (entries (currentData ?s))"
    by (simp add: initial_state_def)
  show ?thesis using h2 C7_ids_unique[OF h1 h2 h3] by blast
qed

text \<open>
  Claim C8, as stated, fails: \<^verbatim>\<open>deleteEntry\<close> never looks whether the id exists.  With
  one stored entry of id 1, deleting id 2 in local mode saves the unchanged list and
  reports the success "Saved locally".
\<close>

theorem C8_reports_success_counterexample:
  "''2'' \<notin> entry_id ` set (entries (currentData
       ((initial_state \<lparr> token = [], owner = [], repo = [], mode = Local \<rparr>)
          \<lparr> currentData := \<lparr> entries = [\<lparr>entry_id = ''1'', timestamp = 1, category = ''beer''\<rparr>],
                               sha = None \<rparr> \<rparr>)))
   \<and> status (state_of (deleteEntry
        \<lparr> github_put = (\<lambda>sent es. Inr ''abc''), setItem_ok = True, renderAll_error = None \<rparr> True ''2''
        ((initial_state \<lparr> token = [], owner = [], repo = [], mode = Local \<rparr>)
          \<lparr> currentData := \<lparr> entries = [\<lparr>entry_id = ''1'', timestamp = 1, category = ''beer''\<rparr>],
                               sha = None \<rparr> \<rparr>)))
     = Some (''Saved locally'', Success)"
  by (simp add: store_eval)

lemma filter_absent_id:
  "ident \<notin> entry_id ` set es \<Longrightarrow> filter (\<lambda>e. entry_id e \<noteq> ident) es = es"
  by (induction es) auto

text \<open>
  Claim C8, amended.  Deleting an id that is not in the store never alters the stored
  entries, nor their count, in both variants.  No validation failure is reported:
  \<^verbatim>\<open>deleteEntry\<close> does not look whether the id exists.  When the dialog is cancelled the
  status stays as it was.  Otherwise the unchanged list is saved again and the status is
  the one of that save: in local mode "Saved locally" if the write and the rendering
  succeed and the previous status if either throws; in remote mode "Error saving: " and
  the message if the PUT fails or if the rendering throws after it, and "Saved
  successfully" otherwise.
\<close>

theorem C8_delete_absent_id:
  assumes "ident \<notin> entry_id ` set (entries (currentData s))"
  shows "entries (currentData (state_of (deleteEntry env confirmed ident s)))
           = entries (currentData s)
     \<and> length (entries (currentData (state_of (deleteEntry env confirmed ident s))))
           = length (entries (currentData s))
     \<and> entries (currentData (state_of (deleteEntry_app env confirmed ident s)))
           = entries (currentData s)
     \<and> status (state_of (deleteEntry env confirmed ident s))
         = (if \<not> confirmed then status s
            else if mode (config s) = Local then
              (if setItem_ok env \<and> renderAll_error env = None
               then Some (''Saved locally'', Success) else status s)
            else (case github_put env (body_sha (currentData s)) (entries (currentData s)) of
                    Inl message \<Rightarrow> Some (''Error saving: '' @ message, Error)
                  | Inr new_sha \<Rightarrow>
                      (case renderAll_error env of
                         None \<Rightarrow> Some (''Saved successfully'', Success)
                       | Some message \<Rightarrow> Some (''Error saving: '' @ message, Error))))
     \<and> status (state_of (deleteEntry_app env confirmed ident s))
         = (if \<not> confirmed then status s
            else (case github_put env (body_sha (currentData s)) (entries (currentData s)) of
                    Inl message \<Rightarrow> Some (''Error saving: '' @ message, Error)
                  | Inr new_sha \<Rightarrow>
                      (case renderAll_error env of
                         None \<Rightarrow> Some (''Saved successfully'', Success)
                       | Some message \<Rightarrow> Some (''Error saving: '' @ message, Error))))"
  using filter_absent_id[OF assms]
  by (simp add: deleteEntry_def deleteEntry_app_def saveData_def saveDataLocal_def
        saveData_app_def showStatus_def Let_def split: sum.splits option.splits)

theorem C8_delete_absent_id_witness:
  "entries (currentData (state_of (deleteEntry
        \<lparr> github_put = (\<lambda>sent es. Inr ''abc''), setItem_ok = True, renderAll_error = None \<rparr> True ''2''
        ((initial_state \<lparr> token = [], owner = [], repo = [], mode = Local \<rparr>)
          \<lparr> currentData := \<lparr> entries = [\<lparr>entry_id = ''1'', timestamp = 1, category = ''beer''\<rparr>],
                               sha = None \<rparr> \<rparr>))))
     = [\<lparr>entry_id = ''1'', timestamp = 1, category = ''beer''\<rparr>]
   \<and> status (state_of (deleteEntry_app
        \<lparr> github_put = (\<lambda>sent es. Inr ''abc''), setItem_ok = True,
          renderAll_error = Some ''Chart is not defined'' \<rparr> True ''2''
        ((initial_state \<lparr> token = [], owner = [], repo = [], mode = Local \<rparr>)
          \<lparr> currentData := \<lparr> entries = [\<lparr>entry_id = ''1'', timestamp = 1, category = ''beer''\<rparr>],
                               sha = None \<rparr> \<rparr>)))
     = Some (''Error saving: Chart is not defined'', Error)"
proof -
  let ?s = "(initial_state \<lparr> token = [], owner = [], repo = [], mode = Local \<rparr>)
          \<lparr> currentData := \<lparr> entries = [\<lparr>entry_id = ''1'', timestamp = 1, category = ''beer''\<rparr>],
                               sha = None \<rparr> \<rparr>"
  have h: "''2'' \<notin> entry_id ` set (entries (currentData ?s))"
    by (simp add: initial_state_def)
  have e: "entries (currentData ?s) = [\<lparr>entry_id = ''1'', timestamp = 1, category = ''beer''\<rparr>]"
    by (simp add: initial_state_def)
  have a: "entries (currentData (state_of (deleteEntry
        \<lparr> github_put = (\<lambda>sent es. Inr ''abc''), setItem_ok = True, renderAll_error = None \<rparr> True ''2''
        ?s))) = [\<lparr>entry_id = ''1'', timestamp = 1, category = ''beer''\<rparr>]"
    using C8_delete_absent_id[OF h, of "\<lparr> github_put = (\<lambda>sent es. Inr ''abc''), setItem_ok = True,
        renderAll_error = None \<rparr>" True]
    unfolding e by blast
  have b: "status (state_of (deleteEntry_app
        \<lparr> github_put = (\<lambda>sent es. Inr ''abc''), setItem_ok = True,
          renderAll_error = Some ''Chart is not defined'' \<rparr> True ''2'' ?s))
     = Some (''Error saving: Chart is not defined'', Error)"
    using C8_delete_absent_id[OF h, of "\<lparr> github_put = (\<lambda>sent es. Inr ''abc''), setItem_ok = True,
        renderAll_error = Some ''Chart is not defined'' \<rparr>" True]
    by simp
  show ?thesis using a b by simp
qed

text \<open>
  A remote save whose PUT fails leaves \<^verbatim>\<open>currentData\<close> (entries and SHA) as it was and
  shows the error; this is all of \<^verbatim>\<open>saveData\<close> in \<^verbatim>\<open>app.js\<close>.
\<close>

lemma saveData_remote_failure:
  assumes "mode (config s) \<noteq> Local"
    and "github_put env (body_sha (currentData s)) es = Inl message"
  shows "saveData env es s = Returned (s \<lparr> status := Some (''Error saving: '' @ message, Error) \<rparr>)"
  using assms by (simp add: saveData_def saveData_app_def showStatus_def Let_def)

lemma saveData_app_failure:
  assumes "github_put env (body_sha (currentData s)) es = Inl message"
  shows "saveData_app env es s
           = Returned (s \<lparr> status := Some (''Error saving: '' @ message, Error) \<rparr>)"
  using assms by (simp add: saveData_app_def showStatus_def Let_def)

text \<open>
  Claim C9.  A failed save should leave the in-memory entries and SHA unchanged and
  report an error.  The remote branch does (the two lemmas above).  The local branch
  assigns \<^verbatim>\<open>currentData.entries\<close> before it writes: when \<^verbatim>\<open>localStorage.setItem\<close>
  throws, the exception leaves \<^verbatim>\<open>saveData\<close> uncaught, the new entry stays in memory,
  nothing is stored and no status is shown.
\<close>

theorem C9_local_save_failure_mutates:
  "saveData \<lparr> github_put = (\<lambda>sent es. Inr ''abc''), setItem_ok = False, renderAll_error = None \<rparr>
     [\<lparr>entry_id = ''1704103200000'', timestamp = 1704103200000, category = ''beer''\<rparr>]
     (initial_state \<lparr> token = [], owner = [], repo = [], mode = Local \<rparr>)
   = Thrown \<lparr> config = \<lparr> token = [], owner = [], repo = [], mode = Local \<rparr>,
              currentData = \<lparr> entries = [\<lparr>entry_id = ''1704103200000'',
                                           timestamp = 1704103200000, category = ''beer''\<rparr>],
                              sha = None \<rparr>,
              status = None, local_storage = None \<rparr>"
  by (simp add: store_eval)

end
